theory Spec2Isabelle
  imports Main "HOL-Library.AList" "HOL-Library.Sublist" "HOL-Library.Word"
begin

unbundle bit_operations_syntax

section \<open>The deploy script \<^verbatim>\<open>fabfile.py\<close>: data model\<close>

text \<open>
  The script is a Fabric 1.x fabfile (Python 2). Its module state is the host table
  \<^verbatim>\<open>SERVERS\<close>, the constant \<^verbatim>\<open>REPO\<close> and Fabric's global \<^verbatim>\<open>env\<close>. Every function is
  embedded as a function on an explicit \<open>world\<close>: the host table, \<^verbatim>\<open>env\<close>, the
  \<^verbatim>\<open>return_value\<close> attributes that \<^verbatim>\<open>runs_once\<close> stores, the remote commands issued so
  far, and the behaviour of the remote side.

  A Python dict is an association list in the dict's iteration order (\<^verbatim>\<open>d.items()\<close>);
  \<^verbatim>\<open>d[k] = v\<close> is \<open>AList.update\<close>, \<^verbatim>\<open>d.get(k, default)\<close> and \<^verbatim>\<open>d[k]\<close> go through
  \<open>map_of\<close>. Python 2 does not fix the iteration order of a dict or a set. For
  \<^verbatim>\<open>roledefs\<close> the model takes the order of first insertion, and no theorem below
  depends on that choice (they speak about keys and looked-up values). For \<^verbatim>\<open>SERVERS\<close>
  the order matters, since \<^verbatim>\<open>_get_roledefs\<close> builds host lists by iterating over it:
  the field \<open>servers\<close> of the world holds the entries in the order in which
  \<^verbatim>\<open>SERVERS.items()\<close> yields them, whatever that order is, and the section on
  CPython's dicts computes which order that is for a table written as a dict display.
\<close>

subsection \<open>The host table\<close>

text \<open>One value of \<^verbatim>\<open>SERVERS\<close>: the dict with keys \<^verbatim>\<open>'host'\<close>, \<^verbatim>\<open>'environment'\<close>, \<^verbatim>\<open>'roles'\<close>.\<close>

record traits =
  host :: string
  environment :: string
  roles :: "string list"

type_synonym registry = "(string \<times> traits) list"

type_synonym roledefs = "(string \<times> string list) list"

definition SERVERS :: registry where
  "SERVERS =
     [(''transcript'',
       \<lparr>host = ''archives-prod-transcript-app.nypr.digital'',
        environment = ''prod'',
        roles = [''transcript'']\<rparr>)]"

definition REPO :: string where
  "REPO = ''git@github.com:nypublicradio/transcript-editor''"

subsection \<open>Dict displays under CPython 2.7\<close>

text \<open>
  The script runs under Python 2 (it uses \<^verbatim>\<open>basestring\<close> and Fabric 1.x), so the order
  in which \<^verbatim>\<open>SERVERS.items()\<close> yields the entries of the display \<^verbatim>\<open>{...}\<close> is the order
  of the slots of CPython's hash table, not the order in which the entries are
  written. The interpreter is not part of the repository; what follows is written
  after CPython 2.7's \<^verbatim>\<open>Objects/stringobject.c\<close>, \<^verbatim>\<open>Objects/dictobject.c\<close> and the
  \<^verbatim>\<open>BUILD_MAP\<close> and \<^verbatim>\<open>STORE_MAP\<close> instructions, for a 64-bit build (\<^verbatim>\<open>long\<close> and \<^verbatim>\<open>size_t\<close>
  are 64-bit words) without hash randomisation (the default of Python 2), and for
  keys that are \<^verbatim>\<open>str\<close> objects, as the keys of \<^verbatim>\<open>SERVERS\<close> are.

  \<^verbatim>\<open>string_hash\<close>:
  \<^verbatim>\<open>
      if (len == 0) return 0;
      x = _Py_HashSecret.prefix;          /* 0 */
      x ^= *p << 7;
      while (--len >= 0)
          x = (1000003*x) ^ *p++;
      x ^= Py_SIZE(a);
      x ^= _Py_HashSecret.suffix;         /* 0 */
      if (x == -1) x = -2;
  \<close>
\<close>

definition string_hash :: "string \<Rightarrow> 64 word" where
  "string_hash a =
     (if a = [] then 0
      else (let x = fold (\<lambda>p x. (1000003 * x) XOR of_char p) a (push_bit 7 (of_char (hd a)));
                x = x XOR of_nat (length a)
            in if x = - 1 then - 2 else x))"

text \<open>
  The table of a dict: \<^verbatim>\<open>ma_mask + 1\<close> slots, each empty or an entry with the key's hash,
  the key and the value. A display deletes nothing, so no slot is a dummy and
  \<^verbatim>\<open>ma_fill\<close> equals \<^verbatim>\<open>ma_used\<close>, the number of entries.
\<close>

record 'v dictentry =
  me_hash :: "64 word"
  me_key :: string
  me_value :: 'v

type_synonym 'v dicttable = "'v dictentry option list"

definition ma_used :: "'v dicttable \<Rightarrow> nat" where
  "ma_used table = length (filter (\<lambda>ep. ep \<noteq> None) table)"

text \<open>
  \<^verbatim>\<open>lookdict_string\<close>: the slot of a key, or the empty slot where it goes. The probe
  starts at \<^verbatim>\<open>hash & mask\<close> and goes on with
  \<^verbatim>\<open>
      for (perturb = hash; ; perturb >>= PERTURB_SHIFT) {
          i = (i << 2) + i + perturb + 1;
          ep = &ep0[i & mask];
          ...
  \<close>
  where \<^verbatim>\<open>PERTURB_SHIFT\<close> is 5 and \<^verbatim>\<open>i\<close> and \<^verbatim>\<open>perturb\<close> are unsigned. CPython's loop has no
  bound (a table always keeps an empty slot); here the number of probes is bounded
  by the first argument, and running out of it is the value \<open>None\<close>.
\<close>

primrec lookdict :: "nat \<Rightarrow> 'v dicttable \<Rightarrow> string \<Rightarrow> 64 word \<Rightarrow> 64 word \<Rightarrow> 64 word \<Rightarrow> nat option" where
  "lookdict 0 table key hash i perturb = None"
| "lookdict (Suc fuel) table key hash i perturb =
     (let slot = unat (i AND of_nat (length table - 1)) in
      case table ! slot of
        None \<Rightarrow> Some slot
      | Some ep \<Rightarrow>
          if me_hash ep = hash \<and> me_key ep = key then Some slot
          else lookdict fuel table key hash (push_bit 2 i + i + perturb + 1) (drop_bit 5 perturb))"

text \<open>
  \<^verbatim>\<open>insertdict\<close>: a new key takes the slot found, a known key keeps its slot and gets
  the new value.
\<close>

definition insertdict :: "'v dicttable \<Rightarrow> string \<Rightarrow> 64 word \<Rightarrow> 'v \<Rightarrow> 'v dicttable option" where
  "insertdict table key hash value =
     map_option (\<lambda>slot. table[slot := Some \<lparr>me_hash = hash, me_key = key, me_value = value\<rparr>])
       (lookdict (length table + 14) table key hash (hash AND of_nat (length table - 1)) hash)"

text \<open>
  \<^verbatim>\<open>insertdict_clean\<close>, used when a table is rebuilt: the same probe sequence, up to
  the first empty slot.
\<close>

primrec find_empty :: "nat \<Rightarrow> 'v dicttable \<Rightarrow> 64 word \<Rightarrow> 64 word \<Rightarrow> nat option" where
  "find_empty 0 table i perturb = None"
| "find_empty (Suc fuel) table i perturb =
     (let slot = unat (i AND of_nat (length table - 1)) in
      case table ! slot of
        None \<Rightarrow> Some slot
      | Some ep \<Rightarrow> find_empty fuel table (push_bit 2 i + i + perturb + 1) (drop_bit 5 perturb))"

definition insertdict_clean :: "'v dicttable \<Rightarrow> 'v dictentry \<Rightarrow> 'v dicttable option" where
  "insertdict_clean table ep =
     map_option (\<lambda>slot. table[slot := Some ep])
       (find_empty (length table + 14) table (me_hash ep AND of_nat (length table - 1)) (me_hash ep))"

text \<open>
  \<^verbatim>\<open>dictresize\<close>: the new size is the first of 8, 16, 32, ... above \<^verbatim>\<open>minused\<close>
  (\<^verbatim>\<open>for (newsize = PyDict_MINSIZE; newsize <= minused && newsize > 0; newsize <<= 1)\<close>),
  and the entries move to the new table in the order of their old slots.
\<close>

function grow :: "nat \<Rightarrow> nat \<Rightarrow> nat" where
  "grow newsize minused =
     (if newsize \<le> minused \<and> newsize > 0 then grow (2 * newsize) minused else newsize)"
  by pat_completeness auto
termination
  by (relation "measure (\<lambda>(newsize, minused). minused + 1 - newsize)") auto

declare grow.simps [simp del]

definition dictresize :: "'v dicttable \<Rightarrow> nat \<Rightarrow> 'v dicttable option" where
  "dictresize table minused =
     fold (\<lambda>ep new. case ep of
                       None \<Rightarrow> new
                     | Some e \<Rightarrow> Option.bind new (\<lambda>newtable. insertdict_clean newtable e))
       table (Some (replicate (grow 8 minused) None))"

text \<open>
  \<^verbatim>\<open>PyDict_SetItem\<close>: insert, then rebuild the table when a key was added and the table
  is two thirds full
  (\<^verbatim>\<open>mp->ma_used > n_used && mp->ma_fill*3 >= (mp->ma_mask+1)*2\<close>), to
  \<^verbatim>\<open>(mp->ma_used > 50000 ? 2 : 4) * mp->ma_used\<close>.
\<close>

definition PyDict_SetItem :: "'v dicttable \<Rightarrow> string \<Rightarrow> 'v \<Rightarrow> 'v dicttable option" where
  "PyDict_SetItem table key value =
     (let n_used = ma_used table in
      case insertdict table key (string_hash key) value of
        None \<Rightarrow> None
      | Some table' \<Rightarrow>
          if ma_used table' > n_used \<and> ma_used table' * 3 \<ge> length table' * 2
          then dictresize table' ((if ma_used table' > 50000 then 2 else 4) * ma_used table')
          else Some table')"

text \<open>
  A display \<^verbatim>\<open>{k1: v1, ..., kn: vn}\<close> compiles to \<^verbatim>\<open>BUILD_MAP n\<close> (a new dict, presized
  when \<open>n\<close> is above 5; \<open>n\<close> is cut at \<^verbatim>\<open>0xFFFF\<close>) followed by one \<^verbatim>\<open>STORE_MAP\<close>, that is
  one \<^verbatim>\<open>PyDict_SetItem\<close>, for each pair in the order written. \<^verbatim>\<open>items()\<close> and
  \<^verbatim>\<open>values()\<close> walk the slots from 0 upwards.
\<close>

definition dict_display :: "(string \<times> 'v) list \<Rightarrow> 'v dicttable option" where
  "dict_display pairs =
     fold (\<lambda>(key, value) d. Option.bind d (\<lambda>table. PyDict_SetItem table key value)) pairs
       (if min (length pairs) 65535 > 5
        then dictresize (replicate 8 None) (min (length pairs) 65535)
        else Some (replicate 8 None))"

definition dict_items :: "'v dicttable \<Rightarrow> (string \<times> 'v) list" where
  "dict_items table =
     concat (map (\<lambda>ep. case ep of None \<Rightarrow> [] | Some e \<Rightarrow> [(me_key e, me_value e)]) table)"

subsection \<open>Python values, exceptions, the Fabric environment\<close>

text \<open>
  What a task returns: \<^verbatim>\<open>None\<close>, a bool (the guard's \<^verbatim>\<open>False\<close>) or a string. The guard
  returns the task's value untagged, as the source does.
\<close>

datatype pyval = PyNone | PyBool bool | PyStr string

text \<open>
  The exceptions the script can meet: Fabric aborts with \<^verbatim>\<open>SystemExit\<close> when a remote
  command fails outside \<^verbatim>\<open>warn_only\<close> mode (or when it cannot build a host list), and
  reading an attribute of \<^verbatim>\<open>env\<close> that was never set raises \<^verbatim>\<open>AttributeError\<close>.
\<close>

datatype error = SystemExit | AttributeError

text \<open>The dict stored in \<^verbatim>\<open>env.git_info\<close>.\<close>

record git_info_dict =
  revision :: string
  previous_commit :: string
  deployed_commit :: string
  changed_files :: "string list"

text \<open>
  The attributes of \<^verbatim>\<open>env\<close> the script reads or writes. \<^verbatim>\<open>host\<close>, \<^verbatim>\<open>roledefs\<close>, \<^verbatim>\<open>roles\<close>
  and \<^verbatim>\<open>user\<close> exist in every Fabric environment (\<^verbatim>\<open>env.host\<close> is \<^verbatim>\<open>None\<close> until a
  host is being worked on); the others exist only once the script has set them, so
  they are options and \<open>None\<close> means "no such attribute".
\<close>

record fab_env =
  env_host :: "string option"
  env_roledefs :: roledefs
  env_roles :: "string list"
  env_user :: string
  env_git_dir :: "string option"
  env_environment :: "string option"
  env_git_branch :: "string option"
  env_git_revision :: "string option"
  env_git_info :: "git_info_dict option"

text \<open>
  A remote command as Fabric's \<^verbatim>\<open>run\<close> issues it: the host it goes to, the directory
  set by \<^verbatim>\<open>cd\<close>, the command text, and whether \<^verbatim>\<open>warn_only\<close> was in force.
\<close>

record cmd =
  cmd_host :: "string option"
  cmd_cwd :: string
  cmd_text :: string
  cmd_warn_only :: bool

record run_result =
  failed :: bool
  stdout :: string

text \<open>
  The world. \<open>remote\<close> is the remote side: what a command answers, given the commands
  issued before it. \<open>fabric_hosts\<close> is Fabric's own choice of the host list for
  \<^verbatim>\<open>execute\<close>, from the task's \<^verbatim>\<open>roles\<close> attribute and \<^verbatim>\<open>env\<close>; it is library code
  outside the repository, so it is a parameter of the world and every theorem holds
  for every such choice.
\<close>

record world =
  servers :: registry
  env :: fab_env
  return_value :: "string \<Rightarrow> pyval option"
  issued :: "cmd list"
  remote :: "cmd list \<Rightarrow> cmd \<Rightarrow> run_result"
  fabric_hosts :: "string list \<Rightarrow> fab_env \<Rightarrow> error + string list"

type_synonym 'r action = "world \<Rightarrow> (error + 'r) \<times> world"

text \<open>Sequencing: an exception of the first part skips the rest.\<close>

definition then_do :: "(error + 'a) \<times> world \<Rightarrow> ('a \<Rightarrow> 'b action) \<Rightarrow> (error + 'b) \<times> world" where
  "then_do m f = (case m of (Inl e, w) \<Rightarrow> (Inl e, w) | (Inr v, w) \<Rightarrow> f v w)"

section \<open>The role resolver\<close>

text \<open>
  \<^verbatim>\<open>
  def _get_roledefs(environment):
      roledefs = {}
      roles = list(set([ role for traits in SERVERS.values() for role in traits['roles'] ]))
      for role in roles:
          roledefs[role] = [ traits['host'] for server, traits in SERVERS.items()
                              if role in traits['roles']
                              and (environment == traits['environment'] or traits['environment'] == 'all') ]
      return roledefs
  \<close>
  The function reads the module's \<^verbatim>\<open>SERVERS\<close> and writes nothing; it returns the world
  it was given. \<^verbatim>\<open>list(set(xs))\<close> is \<open>remdups xs\<close>: the distinct elements, in an order
  Python leaves open.
\<close>

definition get_roledefs :: "string \<Rightarrow> world \<Rightarrow> roledefs \<times> world" where
  "get_roledefs environment' w =
     (let roles' = remdups (concat (map (\<lambda>traits. roles traits) (map snd (servers w))))
      in (fold (\<lambda>role roledefs'.
                  AList.update role
                    (map (\<lambda>(server, traits). host traits)
                       (filter (\<lambda>(server, traits). role \<in> set (roles traits) \<and>
                                  (environment' = environment traits \<or> environment traits = ''all''))
                          (servers w)))
                    roledefs')
            roles' [],
          w))"

section \<open>The role guard\<close>

text \<open>
  \<^verbatim>\<open>
  def strict_roles(*role_list):
      def attach_list(func):
          @wraps(func)
          def inner_decorator(*args, **kwargs):
              for role in getattr(func, 'roles', []):
                  if env.host in env.roledefs.get(role, []):
                      return func(*args, **kwargs)
              return False
          _values = role_list
          if len(_values) == 1 and not isinstance(_values[0], basestring):
              _values = _values[0]
          setattr(inner_decorator, 'roles', list(_values))
          setattr(func, 'roles', list(_values))
          inner_decorator = _wrap_as_new(func, inner_decorator)
          return inner_decorator
      return attach_list
  \<close>
  The decorator is called with role names as separate arguments or with one iterable
  of role names; both end as the list stored in the \<^verbatim>\<open>roles\<close> attribute of the task and
  of its wrapper. Every function the script decorates is a plain function, so
  \<^verbatim>\<open>_wrap_as_new\<close> returns the wrapper as it is. The wrapper with its \<^verbatim>\<open>roles\<close> attribute
  is the record \<open>task\<close>.
\<close>

datatype role_list = Varargs "string list" | Iterable "string list"

fun attached_roles :: "role_list \<Rightarrow> string list" where
  "attached_roles (Varargs names) = names"
| "attached_roles (Iterable names) = names"

text \<open>\<^verbatim>\<open>d.get(k, default)\<close>\<close>

definition dict_get :: "('k \<times> 'v) list \<Rightarrow> 'k \<Rightarrow> 'v \<Rightarrow> 'v" where
  "dict_get d k dflt = (case map_of d k of None \<Rightarrow> dflt | Some v \<Rightarrow> v)"

text \<open>\<^verbatim>\<open>env.host in hosts\<close>: \<^verbatim>\<open>None\<close> is in no list of host names.\<close>

definition host_in :: "string option \<Rightarrow> string list \<Rightarrow> bool" where
  "host_in h hosts = (case h of None \<Rightarrow> False | Some name \<Rightarrow> name \<in> set hosts)"

record 'a task =
  task_roles :: "string list"
  task_call :: "'a \<Rightarrow> pyval action"

text \<open>The loop of \<^verbatim>\<open>inner_decorator\<close> over \<^verbatim>\<open>func.roles\<close>.\<close>

primrec inner_decorator :: "string list \<Rightarrow> ('a \<Rightarrow> pyval action) \<Rightarrow> 'a \<Rightarrow> pyval action" where
  "inner_decorator [] func args w = (Inr (PyBool False), w)"
| "inner_decorator (role # rest) func args w =
     (if host_in (env_host (env w)) (dict_get (env_roledefs (env w)) role [])
      then func args w
      else inner_decorator rest func args w)"

definition strict_roles :: "role_list \<Rightarrow> ('a \<Rightarrow> pyval action) \<Rightarrow> 'a task" where
  "strict_roles rl func =
     (let vals = attached_roles rl
      in \<lparr>task_roles = vals, task_call = inner_decorator vals func\<rparr>)"

section \<open>Fabric's operations\<close>

text \<open>
  \<^verbatim>\<open>run\<close>, \<^verbatim>\<open>settings\<close>, \<^verbatim>\<open>cd\<close>, \<^verbatim>\<open>execute\<close> and \<^verbatim>\<open>runs_once\<close> belong to the Fabric
  library, not to the repository; the model gives them the behaviour the specification
  and Fabric describe, as far as the script uses it.
\<close>

text \<open>
  Modelled from the spec: the remote command executor (Fabric's \<^verbatim>\<open>run\<close>, not in the
  repository), which "accepts a target host and a command string; returns a result
  object with success/failure and captured output; may run in a warn only mode where
  failure does not abort", a failure being "fatal by default".
  \<^verbatim>\<open>run(command)\<close> sends the command to the current host, in the directory set by
  \<^verbatim>\<open>cd\<close> (the script never nests two \<^verbatim>\<open>cd\<close> blocks). \<^verbatim>\<open>warn_only\<close> is off, as it is by
  default, except inside \<^verbatim>\<open>settings(warn_only=True)\<close>. When the command fails and
  \<^verbatim>\<open>warn_only\<close> is off, Fabric aborts (\<^verbatim>\<open>SystemExit\<close>); otherwise the result comes back,
  with its \<^verbatim>\<open>failed\<close> flag and its output. \<^verbatim>\<open>hide(...)\<close> only changes what is printed.
\<close>

definition run :: "string \<Rightarrow> bool \<Rightarrow> string \<Rightarrow> run_result action" where
  "run cwd warn_only cmdline w =
     (let c = \<lparr>cmd_host = env_host (env w), cmd_cwd = cwd, cmd_text = cmdline,
                cmd_warn_only = warn_only\<rparr>;
          res = remote w (issued w) c;
          w' = w\<lparr>issued := issued w @ [c]\<rparr>
      in if failed res \<and> \<not> warn_only then (Inl SystemExit, w') else (Inr res, w'))"

text \<open>Reading an attribute of \<^verbatim>\<open>env\<close>.\<close>

definition attr :: "'a option \<Rightarrow> 'a action" where
  "attr v w = (case v of None \<Rightarrow> (Inl AttributeError, w) | Some x \<Rightarrow> (Inr x, w))"

definition set_env :: "(fab_env \<Rightarrow> fab_env) \<Rightarrow> world \<Rightarrow> world" where
  "set_env f w = w\<lparr>env := f (env w)\<rparr>"

text \<open>
  Modelled from the spec: the per-host dispatch (Fabric's \<^verbatim>\<open>execute\<close>, not in the
  repository), which invokes a step "once per host", the hosts "processed
  sequentially", and stops at the first failure.
  \<^verbatim>\<open>execute(task, *args)\<close> asks Fabric for the host list of the task. For each host it
  sets \<^verbatim>\<open>env.host\<close>, calls the task and puts \<^verbatim>\<open>env.host\<close> back (unless the task itself
  changed it); an exception ends the loop. With an empty host list the task is called
  once, as it stands. The result is the dict of the tasks' return values.
\<close>

primrec execute_on ::
  "string list \<Rightarrow> 'a task \<Rightarrow> 'a \<Rightarrow> (string \<times> pyval) list \<Rightarrow> ((string \<times> pyval) list) action" where
  "execute_on [] task args results w = (Inr results, w)"
| "execute_on (h # hs) task args results w =
     (case task_call task args (set_env (\<lambda>e. e\<lparr>env_host := Some h\<rparr>) w) of
        (r, w1) \<Rightarrow>
          (let w2 = (if env_host (env w1) = Some h
                     then set_env (\<lambda>e. e\<lparr>env_host := env_host (env w)\<rparr>) w1 else w1)
           in case r of
                Inl e \<Rightarrow> (Inl e, w2)
              | Inr v \<Rightarrow> execute_on hs task args (AList.update h v results) w2))"

definition execute :: "'a task \<Rightarrow> 'a \<Rightarrow> ((string \<times> pyval) list) action" where
  "execute task args w =
     (case fabric_hosts w (task_roles task) (env w) of
        Inl e \<Rightarrow> (Inl e, w)
      | Inr [] \<Rightarrow> then_do (task_call task args w) (\<lambda>v w1. (Inr [(''<local-only>'', v)], w1))
      | Inr (h # hs) \<Rightarrow> execute_on (h # hs) task args [] w)"

text \<open>
  \<^verbatim>\<open>
  def runs_once(func):
      def decorated(*args, **kwargs):
          if not hasattr(decorated, 'return_value'):
              decorated.return_value = func(*args, **kwargs)
          return decorated.return_value
  \<close>
  This is Fabric's decorator (not in the repository), as Fabric defines it. The
  attribute lives on the decorated function; the world keeps it under the function's
  name. \<^verbatim>\<open>@task\<close> only registers the function as a command of \<^verbatim>\<open>fab\<close>.
\<close>

definition runs_once :: "string \<Rightarrow> ('a \<Rightarrow> pyval action) \<Rightarrow> 'a \<Rightarrow> pyval action" where
  "runs_once name func args w =
     (case return_value w name of
        Some v \<Rightarrow> (Inr v, w)
      | None \<Rightarrow>
          then_do (func args w)
            (\<lambda>v w1. (Inr v, w1\<lparr>return_value := (return_value w1)(name := Some v)\<rparr>)))"

text \<open>Python's truth value of an attribute that may be missing, \<^verbatim>\<open>None\<close> or a string.\<close>

definition truthy :: "string option \<Rightarrow> bool" where
  "truthy v = (case v of None \<Rightarrow> False | Some s \<Rightarrow> s \<noteq> [])"

text \<open>\<^verbatim>\<open>s.split(sep)\<close> for a separator of one character.\<close>

fun split_on :: "char \<Rightarrow> string \<Rightarrow> string list" where
  "split_on sep [] = [[]]"
| "split_on sep (c # cs) =
     (if c = sep then [] # split_on sep cs
      else (case split_on sep cs of
              [] \<Rightarrow> [[c]]
            | piece # pieces \<Rightarrow> (c # piece) # pieces))"

section \<open>The context tasks\<close>

text \<open>
  \<^verbatim>\<open>
  def _load_shared_env_dict():
      env.user = 'transcript'
      env.git_dir = '/opt/transcript/transcript-editor'
      env.roledefs = _get_roledefs(env.environment)
      env.roles = [ role for role, hosts in env.roledefs.items() if len(hosts) > 0 ]
      env.git_branch = env.environment
  \<close>
\<close>

definition load_shared_env_dict :: "unit action" where
  "load_shared_env_dict w =
     (let w1 = set_env (\<lambda>e. e\<lparr>env_user := ''transcript''\<rparr>) w;
          w2 = set_env (\<lambda>e. e\<lparr>env_git_dir := Some ''/opt/transcript/transcript-editor''\<rparr>) w1
      in then_do (attr (env_environment (env w2)) w2) (\<lambda>environment' w3.
           case get_roledefs environment' w3 of
             (roledefs', w4) \<Rightarrow>
               (let w5 = set_env (\<lambda>e. e\<lparr>env_roledefs := roledefs'\<rparr>) w4;
                    w6 = set_env (\<lambda>e. e\<lparr>env_roles :=
                           map fst (filter (\<lambda>(role, hosts). length hosts > 0)
                                      (env_roledefs (env w5)))\<rparr>) w5
                in then_do (attr (env_environment (env w6)) w6) (\<lambda>environment'' w7.
                     (Inr (), set_env (\<lambda>e. e\<lparr>env_git_branch := Some environment''\<rparr>) w7)))))"

text \<open>
  \<^verbatim>\<open>
  @task
  @runs_once
  def prod():
      env.environment = 'prod'
      _load_shared_env_dict()
      env.git_branch = 'master'

  @task
  @runs_once
  def r(revision):
      env.git_revision = revision
  \<close>
\<close>

definition prod :: "unit \<Rightarrow> pyval action" where
  "prod = runs_once ''prod'' (\<lambda>u w.
     then_do (load_shared_env_dict (set_env (\<lambda>e. e\<lparr>env_environment := Some ''prod''\<rparr>) w))
       (\<lambda>u w1. (Inr PyNone, set_env (\<lambda>e. e\<lparr>env_git_branch := Some ''master''\<rparr>) w1)))"

definition r :: "string \<Rightarrow> pyval action" where
  "r = runs_once ''r'' (\<lambda>revision' w.
     (Inr PyNone, set_env (\<lambda>e. e\<lparr>env_git_revision := Some revision'\<rparr>) w))"

section \<open>The guarded tasks\<close>

text \<open>
  \<^verbatim>\<open>
  @strict_roles('transcript')
  def _check_git_dir():
      with settings(warn_only=True):
          git_dir_check = run('test -d {}'.format(env.git_dir))
      if git_dir_check.failed:
          with cd('~/'):
              run('git clone {}'.format(REPO))
  \<close>
\<close>

definition check_git_dir :: "unit task" where
  "check_git_dir = strict_roles (Varargs [''transcript'']) (\<lambda>u w.
     then_do (attr (env_git_dir (env w)) w) (\<lambda>git_dir w.
     then_do (run [] True (''test -d '' @ git_dir) w) (\<lambda>git_dir_check w.
       if failed git_dir_check
       then then_do (run ''~/'' False (''git clone '' @ REPO) w) (\<lambda>cloned w. (Inr PyNone, w))
       else (Inr PyNone, w))))"

text \<open>
  \<^verbatim>\<open>
  @strict_roles('transcript')
  def _deploy_git(branch):
      with cd(env.git_dir):
          run('git fetch -q origin +{0}:remotes/origin/{0}'.format(branch))
          run('git reset --hard remotes/origin/{0}'.format(branch))
          run('git checkout {0}'.format(env.git_revision))
  \<close>
\<close>

definition deploy_git :: "string task" where
  "deploy_git = strict_roles (Varargs [''transcript'']) (\<lambda>branch w.
     then_do (attr (env_git_dir (env w)) w) (\<lambda>git_dir w.
     then_do (run git_dir False
                (''git fetch -q origin +'' @ branch @ '':remotes/origin/'' @ branch) w) (\<lambda>fetched' w.
     then_do (run git_dir False (''git reset --hard remotes/origin/'' @ branch) w) (\<lambda>reset w.
     then_do (attr (env_git_revision (env w)) w) (\<lambda>git_revision w.
     then_do (run git_dir False (''git checkout '' @ git_revision) w) (\<lambda>checked_out w.
       (Inr PyNone, w)))))))"

text \<open>
  \<^verbatim>\<open>
  @strict_roles('transcript')
  def _git_info(branch):
      if hasattr(env, 'git_info'):
          return
      with cd(env.git_dir), hide('running','stdout'):
          run('git fetch -q origin +{0}:remotes/origin/{0}'.format(branch))
          revision = run('git rev-parse remotes/origin/{0}'.format(branch))
          changed_files = run('git diff --no-color --name-only remotes/origin/{0} | cat'.format(branch))
          previous_commit = run('git log --no-color -1 --full-history HEAD | cat')
          deployed_commit = run('git log --no-color -1 --full-history remotes/origin/{0} | cat'.format(branch))
      env.git_info = {
          'revision': str(revision),
          'previous_commit': str(previous_commit),
          'deployed_commit': str(deployed_commit),
          'changed_files': changed_files.split('\n')
      }
  \<close>
\<close>

definition git_info :: "string task" where
  "git_info = strict_roles (Varargs [''transcript'']) (\<lambda>branch w.
     if env_git_info (env w) \<noteq> None then (Inr PyNone, w)
     else
     then_do (attr (env_git_dir (env w)) w) (\<lambda>git_dir w.
     then_do (run git_dir False
                (''git fetch -q origin +'' @ branch @ '':remotes/origin/'' @ branch) w) (\<lambda>fetched' w.
     then_do (run git_dir False (''git rev-parse remotes/origin/'' @ branch) w) (\<lambda>revision' w.
     then_do (run git_dir False
                (''git diff --no-color --name-only remotes/origin/'' @ branch @ '' | cat'') w)
       (\<lambda>changed_files' w.
     then_do (run git_dir False ''git log --no-color -1 --full-history HEAD | cat'' w)
       (\<lambda>previous_commit' w.
     then_do (run git_dir False
                (''git log --no-color -1 --full-history remotes/origin/'' @ branch @ '' | cat'') w)
       (\<lambda>deployed_commit' w.
       (Inr PyNone,
        set_env (\<lambda>e. e\<lparr>env_git_info := Some
           \<lparr>revision = stdout revision',
            previous_commit = stdout previous_commit',
            deployed_commit = stdout deployed_commit',
            changed_files = split_on (CHR 0x0A) (stdout changed_files')\<rparr>\<rparr>) w))))))))"

text \<open>
  \<^verbatim>\<open>
  @strict_roles('transcript')
  def _install():
      with cd(env.git_dir):
          run('bundle install --path vendor/bundle')
          run('test -e config/application.yml || ln -s /etc/transcript-editor/application.yml config/application.yml')
          run('test -e config/database.yml || ln -s /etc/transcript-editor/database.yml config/database.yml')
          run('RAILS_ENV=production rake db:version || RAILS_ENV=production rake db:setup')
          run('RAILS_ENV=production rake project:load["nypr-archives"]')

  @strict_roles('transcript')
  def _restart():
      run("sudo /usr/systemctl restart transcript")
  \<close>
  The double quote inside the last command of \<^verbatim>\<open>_install\<close> is the character with
  code \<open>0x22\<close>.
\<close>

definition install :: "unit task" where
  "install = strict_roles (Varargs [''transcript'']) (\<lambda>u w.
     then_do (attr (env_git_dir (env w)) w) (\<lambda>git_dir w.
     then_do (run git_dir False ''bundle install --path vendor/bundle'' w) (\<lambda>bundled w.
     then_do (run git_dir False
                ''test -e config/application.yml || ln -s /etc/transcript-editor/application.yml config/application.yml'' w)
       (\<lambda>linked_app w.
     then_do (run git_dir False
                ''test -e config/database.yml || ln -s /etc/transcript-editor/database.yml config/database.yml'' w)
       (\<lambda>linked_db w.
     then_do (run git_dir False
                ''RAILS_ENV=production rake db:version || RAILS_ENV=production rake db:setup'' w)
       (\<lambda>migrated w.
     then_do (run git_dir False
                (''RAILS_ENV=production rake project:load['' @ [CHR 0x22] @ ''nypr-archives''
                   @ [CHR 0x22] @ '']'') w)
       (\<lambda>loaded w. (Inr PyNone, w))))))))"

definition restart :: "unit task" where
  "restart = strict_roles (Varargs [''transcript'']) (\<lambda>u w.
     then_do (run [] False ''sudo /usr/systemctl restart transcript'' w) (\<lambda>restarted w.
       (Inr PyNone, w)))"

section \<open>The dispatcher\<close>

text \<open>
  \<^verbatim>\<open>
  @task
  @runs_once
  def deploy(branch=None):
      execute(_check_git_dir)
      if not branch:
          branch = env.git_branch
      execute(_git_info, branch)
      if not getattr(env, 'git_revision', None):
          env.git_revision = env.git_info['revision']
      execute(_deploy_git, branch)
      execute(_install)
      execute(_restart)
  \<close>
\<close>

definition deploy :: "string option \<Rightarrow> pyval action" where
  "deploy = runs_once ''deploy'' (\<lambda>branch w.
     then_do (execute check_git_dir () w) (\<lambda>checked w.
     then_do (if truthy branch then attr branch w else attr (env_git_branch (env w)) w)
       (\<lambda>branch' w.
     then_do (execute git_info branch' w) (\<lambda>informed w.
     then_do (if \<not> truthy (env_git_revision (env w))
              then then_do (attr (env_git_info (env w)) w) (\<lambda>info w.
                     (Inr (), set_env (\<lambda>e. e\<lparr>env_git_revision := Some (revision info)\<rparr>) w))
              else (Inr (), w))
       (\<lambda>u w.
     then_do (execute deploy_git branch' w) (\<lambda>deployed w.
     then_do (execute install () w) (\<lambda>installed w.
     then_do (execute restart () w) (\<lambda>restarted w.
       (Inr PyNone, w)))))))))"

section \<open>Example worlds\<close>

text \<open>
  Concrete inputs for the examples that follow the theorems. \<open>fabric_merge\<close> is the
  host list Fabric builds from a task's roles: the hosts of each role in
  \<^verbatim>\<open>env.roledefs\<close>, without repetitions, and an abort when a role is not defined.
  \<open>fresh_world\<close> is the state of a \<^verbatim>\<open>fab\<close> process before any task has run, over a
  given host table (its entries in the order \<^verbatim>\<open>SERVERS.items()\<close> yields them) and
  remote side. \<open>four_servers\<close> is a table with two environments, the
  wildcard and a role that no \<^verbatim>\<open>prod\<close> host holds; \<open>guard_world\<close> has its \<^verbatim>\<open>prod\<close> roledefs
  and a current host. \<open>marking_task\<close> leaves a trace in the world, \<open>raising_task\<close>
  raises.

  \<open>load_module\<close> is the state of a \<^verbatim>\<open>fab\<close> process whose fabfile defines \<^verbatim>\<open>SERVERS\<close> by the
  given dict display: \<open>servers\<close> holds the entries as \<^verbatim>\<open>SERVERS.items()\<close> yields them
  under CPython 2.7. \<open>four_servers_items\<close> is that sequence for the display
  \<open>four_servers\<close>.
\<close>

definition fabric_merge :: "string list \<Rightarrow> fab_env \<Rightarrow> error + string list" where
  "fabric_merge roles' e =
     (if \<exists>role \<in> set roles'. map_of (env_roledefs e) role = None then Inl SystemExit
      else Inr (remdups (concat (map (\<lambda>role. dict_get (env_roledefs e) role []) roles'))))"

definition fresh_world :: "registry \<Rightarrow> (cmd list \<Rightarrow> cmd \<Rightarrow> run_result) \<Rightarrow> world" where
  "fresh_world srv rem =
     \<lparr>servers = srv,
      env = \<lparr>env_host = None, env_roledefs = [], env_roles = [], env_user = ''operator'',
             env_git_dir = None, env_environment = None, env_git_branch = None,
             env_git_revision = None, env_git_info = None\<rparr>,
      return_value = (\<lambda>name. None),
      issued = [],
      remote = rem,
      fabric_hosts = fabric_merge\<rparr>"

definition four_servers :: registry where
  "four_servers =
     [(''a'', \<lparr>host = ''host1'', environment = ''prod'', roles = [''web'']\<rparr>),
      (''b'', \<lparr>host = ''host2'', environment = ''staging'', roles = [''web'', ''db'']\<rparr>),
      (''c'', \<lparr>host = ''host3'', environment = ''all'', roles = [''web'']\<rparr>),
      (''d'', \<lparr>host = ''host4'', environment = ''prod'', roles = [''web'']\<rparr>)]"

definition remote_ok :: "string \<Rightarrow> cmd list \<Rightarrow> cmd \<Rightarrow> run_result" where
  "remote_ok out history c = \<lparr>failed = False, stdout = out\<rparr>"

definition load_module :: "registry \<Rightarrow> (cmd list \<Rightarrow> cmd \<Rightarrow> run_result) \<Rightarrow> world option" where
  "load_module display rem =
     map_option (\<lambda>table. fresh_world (dict_items table) rem) (dict_display display)"

definition four_servers_items :: registry where
  "four_servers_items =
     [(''a'', \<lparr>host = ''host1'', environment = ''prod'', roles = [''web'']\<rparr>),
      (''c'', \<lparr>host = ''host3'', environment = ''all'', roles = [''web'']\<rparr>),
      (''b'', \<lparr>host = ''host2'', environment = ''staging'', roles = [''web'', ''db'']\<rparr>),
      (''d'', \<lparr>host = ''host4'', environment = ''prod'', roles = [''web'']\<rparr>)]"

definition guard_world :: "string option \<Rightarrow> world" where
  "guard_world h = set_env (\<lambda>e. e\<lparr>env_host := h,
       env_roledefs := [(''db'', []), (''web'', [''host1'', ''host3'', ''host4''])]\<rparr>)
     (fresh_world four_servers (remote_ok []))"

definition marking_task :: "string \<Rightarrow> pyval action" where
  "marking_task args w = (Inr (PyStr args), set_env (\<lambda>e. e\<lparr>env_user := args\<rparr>) w)"

definition raising_task :: "string \<Rightarrow> pyval action" where
  "raising_task args w = (Inl AttributeError, w)"

text \<open>
  A remote side on which the listed commands fail; the host of the one entry of
  \<^verbatim>\<open>SERVERS\<close>; and the world after \<^verbatim>\<open>fab prod\<close> while Fabric works on host \<open>h\<close>.
  \<open>demo_world\<close> has a remote side on which every command succeeds and prints
  \<^verbatim>\<open>4f2a9c1\<close>; \<open>tagged_world\<close> follows \<^verbatim>\<open>fab prod r:REVISION\<close>; in \<open>broken_world\<close> the
  directory is missing and \<^verbatim>\<open>git reset\<close> fails, and \<open>broken_log\<close> is what \<^verbatim>\<open>deploy\<close>
  sends there.
\<close>

definition remote_failing :: "string list \<Rightarrow> cmd list \<Rightarrow> cmd \<Rightarrow> run_result" where
  "remote_failing bad history c = \<lparr>failed = (cmd_text c \<in> set bad), stdout = ''4f2a9c1''\<rparr>"

definition prod_host :: string where
  "prod_host = ''archives-prod-transcript-app.nypr.digital''"

definition prod_world :: "(cmd list \<Rightarrow> cmd \<Rightarrow> run_result) \<Rightarrow> string option \<Rightarrow> world" where
  "prod_world rem h =
     set_env (\<lambda>e. e\<lparr>env_host := h\<rparr>) (snd (prod () (fresh_world SERVERS rem)))"

definition demo_world :: world where
  "demo_world = prod_world (remote_ok ''4f2a9c1'') (Some prod_host)"

definition tagged_world :: "string \<Rightarrow> world" where
  "tagged_world revision' = snd (r revision' demo_world)"

definition broken_world :: world where
  "broken_world =
     prod_world (remote_failing [''test -d /opt/transcript/transcript-editor'',
                                 ''git reset --hard remotes/origin/master''])
       (Some prod_host)"

definition broken_log :: "cmd list" where
  "broken_log =
     [\<lparr>cmd_host = Some prod_host, cmd_cwd = [],
       cmd_text = ''test -d /opt/transcript/transcript-editor'', cmd_warn_only = True\<rparr>,
      \<lparr>cmd_host = Some prod_host, cmd_cwd = ''~/'',
       cmd_text = ''git clone git@github.com:nypublicradio/transcript-editor'',
       cmd_warn_only = False\<rparr>,
      \<lparr>cmd_host = Some prod_host, cmd_cwd = ''/opt/transcript/transcript-editor'',
       cmd_text = ''git fetch -q origin +master:remotes/origin/master'',
       cmd_warn_only = False\<rparr>,
      \<lparr>cmd_host = Some prod_host, cmd_cwd = ''/opt/transcript/transcript-editor'',
       cmd_text = ''git rev-parse remotes/origin/master'', cmd_warn_only = False\<rparr>,
      \<lparr>cmd_host = Some prod_host, cmd_cwd = ''/opt/transcript/transcript-editor'',
       cmd_text = ''git diff --no-color --name-only remotes/origin/master | cat'',
       cmd_warn_only = False\<rparr>,
      \<lparr>cmd_host = Some prod_host, cmd_cwd = ''/opt/transcript/transcript-editor'',
       cmd_text = ''git log --no-color -1 --full-history HEAD | cat'',
       cmd_warn_only = False\<rparr>,
      \<lparr>cmd_host = Some prod_host, cmd_cwd = ''/opt/transcript/transcript-editor'',
       cmd_text = ''git log --no-color -1 --full-history remotes/origin/master | cat'',
       cmd_warn_only = False\<rparr>,
      \<lparr>cmd_host = Some prod_host, cmd_cwd = ''/opt/transcript/transcript-editor'',
       cmd_text = ''git fetch -q origin +master:remotes/origin/master'',
       cmd_warn_only = False\<rparr>,
      \<lparr>cmd_host = Some prod_host, cmd_cwd = ''/opt/transcript/transcript-editor'',
       cmd_text = ''git reset --hard remotes/origin/master'', cmd_warn_only = False\<rparr>]"

section \<open>Predicates of the statements and of their proofs\<close>

text \<open>
  The host sequence the resolver gives for a role, \<^verbatim>\<open>_get_roledefs(e).get(role)\<close>, and,
  to compare it with, the sequence in the words of the specification: the hosts of
  the descriptors that list the role and match the environment, in the order in which
  the descriptors are written in the registry.
\<close>

definition resolved_hosts :: "string \<Rightarrow> string \<Rightarrow> world \<Rightarrow> string list option" where
  "resolved_hosts e role w = map_of (fst (get_roledefs e w)) role"

definition hosts_as_written :: "registry \<Rightarrow> string \<Rightarrow> string \<Rightarrow> string list" where
  "hosts_as_written display e role =
     map (\<lambda>(server, traits). host traits)
       (filter (\<lambda>(server, traits). role \<in> set (roles traits) \<and>
                  (environment traits = e \<or> environment traits = ''all''))
          display)"

text \<open>The current host is listed under the role in \<^verbatim>\<open>env.roledefs\<close>.\<close>

definition holds_role :: "world \<Rightarrow> string \<Rightarrow> bool" where
  "holds_role w role \<longleftrightarrow>
     (\<exists>hosts h. map_of (env_roledefs (env w)) role = Some hosts \<and>
        env_host (env w) = Some h \<and> h \<in> set hosts)"

text \<open>The exception of an outcome, if it is one.\<close>

definition raised :: "error + 'a \<Rightarrow> error option" where
  "raised res = (case res of Inl e \<Rightarrow> Some e | Inr v \<Rightarrow> None)"

text \<open>
  Of the commands \<open>new\<close>, issued after \<open>history\<close>, only the last can have failed
  outside \<^verbatim>\<open>warn_only\<close> mode, and then the outcome is \<^verbatim>\<open>SystemExit\<close>.
\<close>

definition fatal_last ::
  "(cmd list \<Rightarrow> cmd \<Rightarrow> run_result) \<Rightarrow> cmd list \<Rightarrow> cmd list \<Rightarrow> error option \<Rightarrow> bool" where
  "fatal_last rem history new err \<longleftrightarrow>
     (\<forall>before c after.
        new = before @ c # after \<and> \<not> cmd_warn_only c \<and> failed (rem (history @ before) c)
        \<longrightarrow> after = [] \<and> err = Some SystemExit)"

text \<open>The command is the existence check of \<^verbatim>\<open>env.git_dir\<close>.\<close>

definition is_check :: "world \<Rightarrow> cmd \<Rightarrow> bool" where
  "is_check w c \<longleftrightarrow>
     (\<exists>git_dir. env_git_dir (env w) = Some git_dir \<and> cmd_text c = ''test -d '' @ git_dir)"

text \<open>
  \<open>rvn\<close> is what the remote side answered to a \<^verbatim>\<open>git rev-parse\<close> of the branch that
  stands in the log of the world after the commands \<open>base\<close>, that is, to one issued since
  the log was \<open>base\<close>.
\<close>

definition fetched :: "cmd list \<Rightarrow> world \<Rightarrow> string \<Rightarrow> string \<Rightarrow> bool" where
  "fetched base w branch rvn \<longleftrightarrow>
     (\<exists>before c after. issued w = base @ before @ c # after \<and>
        cmd_text c = ''git rev-parse remotes/origin/'' @ branch \<and>
        rvn = stdout (remote w (base @ before) c))"

text \<open>The branch \<^verbatim>\<open>deploy\<close> works on: its argument, or \<^verbatim>\<open>env.git_branch\<close> when that is falsy.\<close>

definition chosen_branch :: "string option \<Rightarrow> world \<Rightarrow> string option" where
  "chosen_branch branch w = (if truthy branch then branch else env_git_branch (env w))"

text \<open>
  What one step of the deploy sequence may do to the world, as the proofs need it:
  \<open>info_ok\<close>, \<^verbatim>\<open>env.git_info\<close> stays, or was missing and now holds a revision of the
  branch \<open>b\<close> fetched since \<open>base\<close>; \<open>rev_ok\<close>, \<^verbatim>\<open>env.git_revision\<close> stays, or (where \<open>s\<close> allows it) was falsy
  and is now the revision of \<^verbatim>\<open>env.git_info\<close>; \<open>cache_ok\<close>, no \<^verbatim>\<open>return_value\<close> but that of \<^verbatim>\<open>deploy\<close> changes;
  \<open>step_ok\<close>, nothing else changes but the log, which only grows, by commands that
  obey \<open>fatal_last\<close> and of which only the existence check runs in \<^verbatim>\<open>warn_only\<close> mode.
\<close>

definition info_ok :: "string option \<Rightarrow> cmd list \<Rightarrow> world \<Rightarrow> world \<Rightarrow> bool" where
  "info_ok b base w w' \<longleftrightarrow>
     env_git_info (env w') = env_git_info (env w) \<or>
     (env_git_info (env w) = None \<and>
      (\<exists>info branch. b = Some branch \<and> env_git_info (env w') = Some info \<and>
         fetched base w' branch (revision info)))"

definition rev_ok :: "bool \<Rightarrow> world \<Rightarrow> world \<Rightarrow> bool" where
  "rev_ok s w w' \<longleftrightarrow>
     env_git_revision (env w') = env_git_revision (env w) \<or>
     (s \<and> \<not> truthy (env_git_revision (env w)) \<and>
      (\<exists>info. env_git_info (env w') = Some info \<and>
         env_git_revision (env w') = Some (revision info)))"

definition cache_ok :: "world \<Rightarrow> world \<Rightarrow> bool" where
  "cache_ok w w' \<longleftrightarrow>
     (\<forall>name. name \<noteq> ''deploy'' \<longrightarrow> return_value w' name = return_value w name)"

definition step_ok ::
  "string option \<Rightarrow> cmd list \<Rightarrow> bool \<Rightarrow> world \<Rightarrow> (error + 'a) \<times> world \<Rightarrow> bool" where
  "step_ok b base s w m \<longleftrightarrow>
     (\<exists>new rv info rvn.
        snd m = w\<lparr>issued := issued w @ new, return_value := rv,
                  env := (env w)\<lparr>env_git_info := info, env_git_revision := rvn\<rparr>\<rparr> \<and>
        (\<forall>c \<in> set new. cmd_warn_only c \<longrightarrow> is_check w c) \<and>
        fatal_last (remote w) (issued w) new (raised (fst m))) \<and>
     info_ok b base w (snd m) \<and> rev_ok s w (snd m) \<and> cache_ok w (snd m)"

text \<open>What \<^verbatim>\<open>prod\<close> leaves behind once it has run.\<close>

definition prod_done :: "world \<Rightarrow> bool" where
  "prod_done w \<longleftrightarrow>
     return_value w ''prod'' = Some PyNone \<and>
     env_environment (env w) = Some ''prod'' \<and>
     env_git_branch (env w) = Some ''master'' \<and>
     env_roledefs (env w) = fst (get_roledefs ''prod'' w) \<and>
     env_roles (env w) = map fst (filter (\<lambda>(role, hosts). hosts \<noteq> []) (env_roledefs (env w)))"

text \<open>
  The worlds a \<^verbatim>\<open>fab\<close> process can be in between two tasks of its command line: it
  starts with no \<^verbatim>\<open>return_value\<close> stored and no \<^verbatim>\<open>env.git_info\<close>, Fabric sets \<^verbatim>\<open>env.host\<close>
  as it goes through its hosts, and each task that returns leaves the next world
  (an exception ends the process).
\<close>

inductive reachable :: "world \<Rightarrow> bool" where
  start: "return_value w = (\<lambda>name. None) \<Longrightarrow> env_git_info (env w) = None \<Longrightarrow> reachable w"
| host: "reachable w \<Longrightarrow> reachable (set_env (\<lambda>e. e\<lparr>env_host := h\<rparr>) w)"
| prod: "reachable w \<Longrightarrow> prod u w = (Inr v, w') \<Longrightarrow> reachable w'"
| r: "reachable w \<Longrightarrow> r revision' w = (Inr v, w') \<Longrightarrow> reachable w'"
| deploy: "reachable w \<Longrightarrow> deploy branch w = (Inr v, w') \<Longrightarrow> reachable w'"

section \<open>Properties of the role resolver\<close>

text \<open>Looking a key up in a dict filled by a loop of assignments.\<close>

lemma map_of_fold_update:
  "map_of (fold (\<lambda>k acc. AList.update k (f k) acc) ks acc0) k =
     (if k \<in> set ks then Some (f k) else map_of acc0 k)"
  by (induction ks arbitrary: acc0) (auto simp: update_conv')

lemma keys_fold_update:
  "fst ` set (fold (\<lambda>k acc. AList.update k (f k) acc) ks acc0) = set ks \<union> fst ` set acc0"
  by (induction ks arbitrary: acc0) (auto simp: dom_update)

lemma distinct_fold_update:
  "distinct (map fst acc0) \<Longrightarrow> distinct (map fst (fold (\<lambda>k acc. AList.update k (f k) acc) ks acc0))"
  by (induction ks arbitrary: acc0) (auto simp: distinct_update)

lemma lookup_get_roledefs:
  "map_of (fst (get_roledefs e w)) role =
     (if \<exists>(server, traits) \<in> set (servers w). role \<in> set (roles traits)
      then Some (map (\<lambda>(server, traits). host traits)
                   (filter (\<lambda>(server, traits). role \<in> set (roles traits) \<and>
                              (e = environment traits \<or> environment traits = ''all''))
                      (servers w)))
      else None)"
  by (auto simp add: get_roledefs_def map_of_fold_update Let_def)

lemma four_servers_prod:
  "fst (get_roledefs ''prod'' (fresh_world four_servers (remote_ok []))) =
     [(''db'', []), (''web'', [''host1'', ''host3'', ''host4''])]"
  by (simp add: get_roledefs_def fresh_world_def four_servers_def)

text \<open>
  Claim C2. For every environment \<open>e\<close> and every role that is a key of
  \<^verbatim>\<open>_get_roledefs(e)\<close>: a host is in the role's sequence exactly when some descriptor of
  the table has that host, lists the role, and has environment \<open>e\<close> or \<^verbatim>\<open>'all'\<close>.
\<close>

theorem get_roledefs_hosts: 
  "map_of (fst (get_roledefs e w)) role = Some hosts \<Longrightarrow>
     (h \<in> set hosts \<longleftrightarrow>
       (\<exists>(server, traits) \<in> set (servers w).
          host traits = h \<and> role \<in> set (roles traits) \<and>
          (environment traits = e \<or> environment traits = ''all'')))"
proof -
  assume "map_of (fst (get_roledefs e w)) role = Some hosts"
  then have hosts: "hosts = map (\<lambda>(server, traits). host traits)
                   (filter (\<lambda>(server, traits). role \<in> set (roles traits) \<and>
                              (e = environment traits \<or> environment traits = ''all''))
                      (servers w))"
    by (simp add: lookup_get_roledefs split: if_splits)
  show ?thesis
    unfolding hosts by force
qed

theorem get_roledefs_hosts_witness:
  "map_of (fst (get_roledefs ''prod'' (fresh_world four_servers (remote_ok [])))) ''web''
     = Some [''host1'', ''host3'', ''host4''] \<and>
   ''host3'' \<in> set [''host1'', ''host3'', ''host4''] \<and>
   (\<exists>(server, traits) \<in> set (servers (fresh_world four_servers (remote_ok []))).
      host traits = ''host3'' \<and> ''web'' \<in> set (roles traits) \<and>
      (environment traits = ''prod'' \<or> environment traits = ''all'')) \<and>
   ''host2'' \<notin> set [''host1'', ''host3'', ''host4''] \<and>
   \<not> (\<exists>(server, traits) \<in> set (servers (fresh_world four_servers (remote_ok []))).
      host traits = ''host2'' \<and> ''web'' \<in> set (roles traits) \<and>
      (environment traits = ''prod'' \<or> environment traits = ''all''))"
proof -
  have h: "map_of (fst (get_roledefs ''prod'' (fresh_world four_servers (remote_ok [])))) ''web''
     = Some [''host1'', ''host3'', ''host4'']"
    by (simp add: four_servers_prod)
  show ?thesis
    using h get_roledefs_hosts [OF h, of "''host3''"] get_roledefs_hosts [OF h, of "''host2''"]
    by simp
qed

text \<open>
  Claim C3. The keys of \<^verbatim>\<open>_get_roledefs(e)\<close> are the roles listed by any descriptor,
  whatever its environment (each key once). A role that only descriptors of other
  environments list is a key with the empty sequence; a role no descriptor lists is
  not a key.
\<close>

theorem get_roledefs_keys:
  "fst ` set (fst (get_roledefs e w)) = (\<Union>(server, traits) \<in> set (servers w). set (roles traits)) \<and>
   distinct (map fst (fst (get_roledefs e w))) \<and>
   (role \<in> (\<Union>(server, traits) \<in> set (servers w). set (roles traits)) \<and>
    \<not> (\<exists>(server, traits) \<in> set (servers w). role \<in> set (roles traits) \<and>
          (environment traits = e \<or> environment traits = ''all''))
    \<longrightarrow> map_of (fst (get_roledefs e w)) role = Some []) \<and>
   (role \<notin> (\<Union>(server, traits) \<in> set (servers w). set (roles traits))
    \<longrightarrow> map_of (fst (get_roledefs e w)) role = None)"
proof (intro conjI impI)
  show "fst ` set (fst (get_roledefs e w)) = (\<Union>(server, traits) \<in> set (servers w). set (roles traits))"
    by (auto simp add: get_roledefs_def keys_fold_update Let_def)
  show "distinct (map fst (fst (get_roledefs e w)))"
    by (simp add: get_roledefs_def Let_def distinct_fold_update)
next
  assume "role \<notin> (\<Union>(server, traits) \<in> set (servers w). set (roles traits))"
  then show "map_of (fst (get_roledefs e w)) role = None"
    by (auto simp: lookup_get_roledefs)
next
  assume a: "role \<in> (\<Union>(server, traits) \<in> set (servers w). set (roles traits)) \<and>
    \<not> (\<exists>(server, traits) \<in> set (servers w). role \<in> set (roles traits) \<and>
          (environment traits = e \<or> environment traits = ''all''))"
  then have "filter (\<lambda>(server, traits). role \<in> set (roles traits) \<and>
                              (e = environment traits \<or> environment traits = ''all''))
                      (servers w) = []"
    by (auto simp: filter_empty_conv)
  with a show "map_of (fst (get_roledefs e w)) role = Some []"
    by (auto simp: lookup_get_roledefs)
qed

theorem get_roledefs_keys_witness:
  "fst ` set (fst (get_roledefs ''prod'' (fresh_world four_servers (remote_ok [])))) = {''db'', ''web''} \<and>
   map_of (fst (get_roledefs ''prod'' (fresh_world four_servers (remote_ok [])))) ''db'' = Some [] \<and>
   map_of (fst (get_roledefs ''prod'' (fresh_world four_servers (remote_ok [])))) ''cache'' = None"
proof -
  have srv: "servers (fresh_world four_servers (remote_ok [])) = four_servers"
    by (simp add: fresh_world_def)
  have keys: "(\<Union>(server, traits) \<in> set four_servers. set (roles traits)) = {''db'', ''web''}"
    by (auto simp: four_servers_def)
  have none: "\<not> (\<exists>(server, traits) \<in> set four_servers. ''db'' \<in> set (roles traits) \<and>
          (environment traits = ''prod'' \<or> environment traits = ''all''))"
    by (simp add: four_servers_def)
  show ?thesis
    using get_roledefs_keys [of "''prod''" "fresh_world four_servers (remote_ok [])" "''db''"]
      get_roledefs_keys [of "''prod''" "fresh_world four_servers (remote_ok [])" "''cache''"]
      none
    unfolding srv keys by simp
qed

subsection \<open>The order of the host table\<close>

text \<open>Evaluating the hash table on numerals.\<close>

lemma lookdict_numeral:
  "lookdict (numeral n) table key hash i perturb =
     (let slot = unat (i AND of_nat (length table - 1)) in
      case table ! slot of
        None \<Rightarrow> Some slot
      | Some ep \<Rightarrow>
          if me_hash ep = hash \<and> me_key ep = key then Some slot
          else lookdict (pred_numeral n) table key hash (push_bit 2 i + i + perturb + 1) (drop_bit 5 perturb))"
  by (simp add: numeral_eq_Suc)

lemma list_update_numeral:
  "(x # xs)[numeral n := y] = x # xs[pred_numeral n := y]"
  by (simp add: numeral_eq_Suc)

lemma empty_table:
  "replicate 8 None = [None, None, None, None, None, None, None, None]"
  by (simp add: numeral_eq_Suc)

lemmas dict_eval =
  PyDict_SetItem_def insertdict_def ma_used_def Let_def lookdict_numeral list_update_numeral

text \<open>
  The hashes of the keys: \<^verbatim>\<open>hash('a')\<close> is 12416037344 in CPython 2.7 on a 64-bit
  machine, and its last three bits give slot 0 of 8; \<^verbatim>\<open>'b'\<close> goes to slot 3, \<^verbatim>\<open>'c'\<close> to
  slot 2, \<^verbatim>\<open>'d'\<close> to slot 5 and \<^verbatim>\<open>'transcript'\<close> to slot 4.
\<close>

lemma string_hash_keys:
  "string_hash ''a'' = 12416037344"
  "string_hash ''b'' = 12544037731"
  "string_hash ''c'' = 12672038114"
  "string_hash ''d'' = 12800038501"
  "string_hash ''transcript'' = 5807976596298456028"
  by (simp_all add: string_hash_def)

lemma set_item_a:
  "PyDict_SetItem [None, None, None, None, None, None, None, None] ''a'' a =
     Some [Some \<lparr>me_hash = 12416037344, me_key = ''a'', me_value = a\<rparr>,
           None, None, None, None, None, None, None]"
  by (simp add: dict_eval string_hash_keys)

lemma set_item_b:
  "PyDict_SetItem [Some \<lparr>me_hash = 12416037344, me_key = ''a'', me_value = a\<rparr>,
                   None, None, None, None, None, None, None] ''b'' b =
     Some [Some \<lparr>me_hash = 12416037344, me_key = ''a'', me_value = a\<rparr>, None, None,
           Some \<lparr>me_hash = 12544037731, me_key = ''b'', me_value = b\<rparr>,
           None, None, None, None]"
  by (simp add: dict_eval string_hash_keys)

lemma set_item_c:
  "PyDict_SetItem [Some \<lparr>me_hash = 12416037344, me_key = ''a'', me_value = a\<rparr>, None, None,
                   Some \<lparr>me_hash = 12544037731, me_key = ''b'', me_value = b\<rparr>,
                   None, None, None, None] ''c'' c =
     Some [Some \<lparr>me_hash = 12416037344, me_key = ''a'', me_value = a\<rparr>, None,
           Some \<lparr>me_hash = 12672038114, me_key = ''c'', me_value = c\<rparr>,
           Some \<lparr>me_hash = 12544037731, me_key = ''b'', me_value = b\<rparr>,
           None, None, None, None]"
  by (simp add: dict_eval string_hash_keys)

lemma set_item_d:
  "PyDict_SetItem [Some \<lparr>me_hash = 12416037344, me_key = ''a'', me_value = a\<rparr>, None,
                   Some \<lparr>me_hash = 12672038114, me_key = ''c'', me_value = c\<rparr>,
                   Some \<lparr>me_hash = 12544037731, me_key = ''b'', me_value = b\<rparr>,
                   None, None, None, None] ''d'' d =
     Some [Some \<lparr>me_hash = 12416037344, me_key = ''a'', me_value = a\<rparr>, None,
           Some \<lparr>me_hash = 12672038114, me_key = ''c'', me_value = c\<rparr>,
           Some \<lparr>me_hash = 12544037731, me_key = ''b'', me_value = b\<rparr>, None,
           Some \<lparr>me_hash = 12800038501, me_key = ''d'', me_value = d\<rparr>, None, None]"
  by (simp add: dict_eval string_hash_keys)

text \<open>
  A display with the keys \<^verbatim>\<open>'a'\<close>, \<^verbatim>\<open>'b'\<close>, \<^verbatim>\<open>'c'\<close>, \<^verbatim>\<open>'d'\<close>, written in this order, is
  iterated in the order \<^verbatim>\<open>'a'\<close>, \<^verbatim>\<open>'c'\<close>, \<^verbatim>\<open>'b'\<close>, \<^verbatim>\<open>'d'\<close>.
\<close>

lemma dict_display_abcd:
  "map_option dict_items (dict_display [(''a'', a), (''b'', b), (''c'', c), (''d'', d)]) =
     Some [(''a'', a), (''c'', c), (''b'', b), (''d'', d)]"
  by (simp add: dict_display_def empty_table set_item_a set_item_b set_item_c set_item_d
      dict_items_def)

lemma load_four_servers:
  "load_module four_servers rem = Some (fresh_world four_servers_items rem)"
  using dict_display_abcd
    [of "\<lparr>host = ''host1'', environment = ''prod'', roles = [''web'']\<rparr>"
        "\<lparr>host = ''host2'', environment = ''staging'', roles = [''web'', ''db'']\<rparr>"
        "\<lparr>host = ''host3'', environment = ''all'', roles = [''web'']\<rparr>"
        "\<lparr>host = ''host4'', environment = ''prod'', roles = [''web'']\<rparr>"]
  by (auto simp add: load_module_def four_servers_def four_servers_items_def)

text \<open>The table of the script has one entry, so there it makes no difference.\<close>

lemma load_SERVERS:
  "load_module SERVERS rem = Some (fresh_world SERVERS rem)"
  by (simp add: load_module_def SERVERS_def dict_display_def empty_table dict_eval
      string_hash_keys dict_items_def)

lemma four_servers_items_staging:
  "fst (get_roledefs ''staging'' (fresh_world four_servers_items rem)) =
     [(''db'', [''host2'']), (''web'', [''host3'', ''host2''])]"
  by (simp add: get_roledefs_def fresh_world_def four_servers_items_def)

text \<open>
  Claim C4, as the specification has it: when two descriptors list the same role and
  both match the environment, the role's sequence holds both hosts in the order in
  which the descriptors appear in the registry. That fails under Python 2. In
  \<open>four_servers\<close> the descriptor \<^verbatim>\<open>'b'\<close> (\<^verbatim>\<open>host2\<close>, \<^verbatim>\<open>staging\<close>) is written before \<^verbatim>\<open>'c'\<close>
  (\<^verbatim>\<open>host3\<close>, \<^verbatim>\<open>all\<close>), both list \<^verbatim>\<open>web\<close>, and the sequence in the order written is
  \<^verbatim>\<open>host2\<close>, \<^verbatim>\<open>host3\<close>; but the dict yields \<^verbatim>\<open>'c'\<close> before \<^verbatim>\<open>'b'\<close>, and
  \<^verbatim>\<open>_get_roledefs('staging')['web']\<close> is \<^verbatim>\<open>host3\<close>, \<^verbatim>\<open>host2\<close>.
\<close>

theorem get_roledefs_written_order_counterexample:
  "hosts_as_written four_servers ''staging'' ''web'' = [''host2'', ''host3''] \<and>
   Option.bind (load_module four_servers (remote_ok [])) (resolved_hosts ''staging'' ''web'') =
     Some [''host3'', ''host2'']"
  by (simp add: load_four_servers resolved_hosts_def four_servers_items_staging)
    (simp add: hosts_as_written_def four_servers_def)

text \<open>
  Claim C4, amended: when two descriptors of the table list the same role and both
  match the environment, the role's sequence holds both hosts, and the host of the
  descriptor that \<^verbatim>\<open>SERVERS.items()\<close> yields first comes first. The order is that of
  the dict's iteration, which need not be the order in which the descriptors are
  written; \<open>servers w\<close> is any such sequence.
\<close>

theorem get_roledefs_items_order:
  assumes split: "servers w = before @ (server1, traits1) # between @ (server2, traits2) # after"
    and first: "role \<in> set (roles traits1)" "environment traits1 = e \<or> environment traits1 = ''all''"
    and second: "role \<in> set (roles traits2)" "environment traits2 = e \<or> environment traits2 = ''all''"
  shows "\<exists>hosts xs ys zs. map_of (fst (get_roledefs e w)) role = Some hosts \<and>
      hosts = xs @ host traits1 # ys @ host traits2 # zs \<and>
      set xs \<subseteq> (\<lambda>(server, traits). host traits) ` set before \<and>
      set ys \<subseteq> (\<lambda>(server, traits). host traits) ` set between \<and>
      set zs \<subseteq> (\<lambda>(server, traits). host traits) ` set after"
proof -
  define keep where "keep = (\<lambda>(server :: string, traits :: traits). role \<in> set (roles traits) \<and>
                              (e = environment traits \<or> environment traits = ''all''))"
  define pick where "pick = (\<lambda>(server :: string, traits :: traits). host traits)"
  have "(server1, traits1) \<in> set (servers w)"
    by (simp add: split)
  with first have known: "\<exists>(server, traits) \<in> set (servers w). role \<in> set (roles traits)"
    by blast
  have k1: "keep (server1, traits1)" and k2: "keep (server2, traits2)"
    using first second by (auto simp: keep_def)
  have "map_of (fst (get_roledefs e w)) role = Some (map pick (filter keep (servers w)))"
    using known unfolding lookup_get_roledefs keep_def pick_def by simp
  also have "map pick (filter keep (servers w)) =
      map pick (filter keep before) @ host traits1 #
      map pick (filter keep between) @ host traits2 # map pick (filter keep after)"
    by (simp add: split k1 k2) (simp add: pick_def)
  finally have "map_of (fst (get_roledefs e w)) role =
      Some (map pick (filter keep before) @ host traits1 #
            map pick (filter keep between) @ host traits2 # map pick (filter keep after))" .
  moreover have "set (map pick (filter keep before)) \<subseteq> pick ` set before"
    and "set (map pick (filter keep between)) \<subseteq> pick ` set between"
    and "set (map pick (filter keep after)) \<subseteq> pick ` set after"
    by auto
  ultimately show ?thesis
    unfolding pick_def by blast
qed

theorem get_roledefs_items_order_witness:
  "load_module four_servers (remote_ok []) = Some (fresh_world four_servers_items (remote_ok [])) \<and>
   map_of (fst (get_roledefs ''staging'' (fresh_world four_servers_items (remote_ok [])))) ''web''
     = Some ([] @ ''host3'' # [] @ ''host2'' # []) \<and>
   map_of (fst (get_roledefs ''prod'' (fresh_world four_servers (remote_ok [])))) ''web''
     = Some ([''host1''] @ ''host3'' # [] @ ''host4'' # [])"
proof -
  have items: "servers (fresh_world four_servers_items (remote_ok [])) =
      [(''a'', \<lparr>host = ''host1'', environment = ''prod'', roles = [''web'']\<rparr>)]
      @ (''c'', \<lparr>host = ''host3'', environment = ''all'', roles = [''web'']\<rparr>)
      # [] @ (''b'', \<lparr>host = ''host2'', environment = ''staging'', roles = [''web'', ''db'']\<rparr>)
      # [(''d'', \<lparr>host = ''host4'', environment = ''prod'', roles = [''web'']\<rparr>)]"
    by (simp add: fresh_world_def four_servers_items_def)
  have split: "servers (fresh_world four_servers (remote_ok [])) =
      [(''a'', \<lparr>host = ''host1'', environment = ''prod'', roles = [''web'']\<rparr>),
       (''b'', \<lparr>host = ''host2'', environment = ''staging'', roles = [''web'', ''db'']\<rparr>)]
      @ (''c'', \<lparr>host = ''host3'', environment = ''all'', roles = [''web'']\<rparr>)
      # [] @ (''d'', \<lparr>host = ''host4'', environment = ''prod'', roles = [''web'']\<rparr>) # []"
    by (simp add: fresh_world_def four_servers_def)
  show ?thesis
    using get_roledefs_items_order [OF items, of "''web''" "''staging''"]
      get_roledefs_items_order [OF split, of "''web''" "''prod''"]
    by (simp add: four_servers_prod four_servers_items_staging load_four_servers)
qed

text \<open>
  Claim C6. \<^verbatim>\<open>_get_roledefs(e)\<close> leaves the world, and with it the table, as it was, and a
  second call returns the same map as the first.
\<close>

theorem get_roledefs_twice:
  "snd (get_roledefs e w) = w \<and>
   get_roledefs e (snd (get_roledefs e w)) = get_roledefs e w \<and>
   servers (snd (get_roledefs e (snd (get_roledefs e w)))) = servers w"
  by (simp add: get_roledefs_def Let_def)

section \<open>Properties of the role guard\<close>

lemma host_in_dict_get:
  "host_in (env_host (env w)) (dict_get (env_roledefs (env w)) role []) = holds_role w role"
  by (cases "env_host (env w)"; cases "map_of (env_roledefs (env w)) role")
     (simp_all add: host_in_def dict_get_def holds_role_def)

lemma inner_decorator_cases:
  "inner_decorator required func args w =
     (if \<exists>role \<in> set required. holds_role w role
      then func args w else (Inr (PyBool False), w))"
  by (induction required) (simp_all add: host_in_dict_get)

text \<open>
  Claim C1. The guarded function carries the required roles it was given. A call of it
  is the call of the task, with the task's result, when the current host is listed in
  \<^verbatim>\<open>env.roledefs\<close> under one of the required roles (a role without an entry has no
  hosts). Otherwise the call returns \<^verbatim>\<open>False\<close> and leaves the world as it was, whatever
  the task is: the task is not called.
\<close>

theorem strict_roles_guard:
  "task_roles (strict_roles rl func) = attached_roles rl \<and>
   ((\<exists>role \<in> set (attached_roles rl). \<exists>hosts h.
        map_of (env_roledefs (env w)) role = Some hosts \<and>
        env_host (env w) = Some h \<and> h \<in> set hosts)
     \<longrightarrow> task_call (strict_roles rl func) args w = func args w) \<and>
   (\<not> (\<exists>role \<in> set (attached_roles rl). \<exists>hosts h.
        map_of (env_roledefs (env w)) role = Some hosts \<and>
        env_host (env w) = Some h \<and> h \<in> set hosts)
     \<longrightarrow> task_call (strict_roles rl func) args w = (Inr (PyBool False), w))"
  unfolding holds_role_def [symmetric]
  by (simp add: strict_roles_def Let_def inner_decorator_cases)

text \<open>
  Claim C5. The guard raises nothing of its own: an exception of a guarded call is the
  task's, raised for a permitted host. When every required role is missing from
  \<^verbatim>\<open>env.roledefs\<close>, has no hosts, or has only other hosts, the call returns \<^verbatim>\<open>False\<close>,
  also for a task that would raise.
\<close>

theorem strict_roles_never_raises:
  "(fst (task_call (strict_roles rl func) args w) = Inl e \<longrightarrow>
      fst (func args w) = Inl e \<and>
      (\<exists>role \<in> set (attached_roles rl). \<exists>hosts h.
        map_of (env_roledefs (env w)) role = Some hosts \<and>
        env_host (env w) = Some h \<and> h \<in> set hosts)) \<and>
   ((\<forall>role \<in> set (attached_roles rl).
        map_of (env_roledefs (env w)) role = None \<or>
        map_of (env_roledefs (env w)) role = Some [] \<or>
        (\<exists>hosts. map_of (env_roledefs (env w)) role = Some hosts \<and> env_host (env w) \<notin> Some ` set hosts))
      \<longrightarrow> task_call (strict_roles rl func) args w = (Inr (PyBool False), w))"
proof (intro conjI impI)
  assume "fst (task_call (strict_roles rl func) args w) = Inl e"
  then show "fst (func args w) = Inl e"
    by (simp add: strict_roles_def Let_def inner_decorator_cases split: if_splits)
next
  assume "fst (task_call (strict_roles rl func) args w) = Inl e"
  then have "\<exists>role \<in> set (attached_roles rl). holds_role w role"
    by (simp add: strict_roles_def Let_def inner_decorator_cases split: if_splits)
  then show "\<exists>role \<in> set (attached_roles rl). \<exists>hosts h.
        map_of (env_roledefs (env w)) role = Some hosts \<and>
        env_host (env w) = Some h \<and> h \<in> set hosts"
    by (simp add: holds_role_def)
next
  assume none: "\<forall>role \<in> set (attached_roles rl).
        map_of (env_roledefs (env w)) role = None \<or>
        map_of (env_roledefs (env w)) role = Some [] \<or>
        (\<exists>hosts. map_of (env_roledefs (env w)) role = Some hosts \<and> env_host (env w) \<notin> Some ` set hosts)"
  have "\<not> holds_role w role" if "role \<in> set (attached_roles rl)" for role
    using none that by (fastforce simp: holds_role_def)
  then show "task_call (strict_roles rl func) args w = (Inr (PyBool False), w)"
    by (simp add: strict_roles_def Let_def inner_decorator_cases)
qed

lemma guard_world_fields:
  "env_host (env (guard_world h)) = h"
  "env_roledefs (env (guard_world h)) = [(''db'', []), (''web'', [''host1'', ''host3'', ''host4''])]"
  by (simp_all add: guard_world_def set_env_def fresh_world_def)

theorem strict_roles_guard_witness:
  "task_call (strict_roles (Varargs [''db'', ''web'']) marking_task) ''x'' (guard_world (Some ''host3''))
     = marking_task ''x'' (guard_world (Some ''host3'')) \<and>
   task_call (strict_roles (Iterable [''db'', ''web'']) marking_task) ''x'' (guard_world (Some ''host2''))
     = (Inr (PyBool False), guard_world (Some ''host2'')) \<and>
   task_call (strict_roles (Varargs [''db'', ''cache'']) marking_task) ''x'' (guard_world (Some ''host3''))
     = (Inr (PyBool False), guard_world (Some ''host3''))"
  using strict_roles_guard [where rl = "Varargs [''db'', ''web'']" and func = marking_task
      and w = "guard_world (Some ''host3'')" and args = "''x''"]
    strict_roles_guard [where rl = "Iterable [''db'', ''web'']" and func = marking_task
      and w = "guard_world (Some ''host2'')" and args = "''x''"]
    strict_roles_guard [where rl = "Varargs [''db'', ''cache'']" and func = marking_task
      and w = "guard_world (Some ''host3'')" and args = "''x''"]
  by (simp add: guard_world_fields)

theorem strict_roles_never_raises_witness:
  "fst (task_call (strict_roles (Varargs [''web'']) raising_task) ''x'' (guard_world (Some ''host1'')))
     = Inl AttributeError \<and>
   fst (raising_task ''x'' (guard_world (Some ''host1''))) = Inl AttributeError \<and>
   task_call (strict_roles (Varargs [''db'', ''cache'', ''web'']) raising_task) ''x'' (guard_world (Some ''host2''))
     = (Inr (PyBool False), guard_world (Some ''host2'')) \<and>
   task_call (strict_roles (Varargs [''web'']) raising_task) ''x'' (guard_world None)
     = (Inr (PyBool False), guard_world None)"
proof -
  have raised: "fst (task_call (strict_roles (Varargs [''web'']) raising_task) ''x''
                  (guard_world (Some ''host1''))) = Inl AttributeError"
    by (simp add: strict_roles_def Let_def host_in_def dict_get_def guard_world_fields raising_task_def)
  show ?thesis
    using raised
      strict_roles_never_raises [of "Varargs [''web'']" raising_task "''x''" "guard_world (Some ''host1'')" AttributeError]
      strict_roles_never_raises [of "Varargs [''db'', ''cache'', ''web'']" raising_task "''x''" "guard_world (Some ''host2'')" AttributeError]
      strict_roles_never_raises [of "Varargs [''web'']" raising_task "''x''" "guard_world None" AttributeError]
    by (simp add: guard_world_fields)
qed

section \<open>Steps of the deploy sequence\<close>

text \<open>
  Every guarded task, every \<^verbatim>\<open>execute\<close> of one and \<^verbatim>\<open>deploy\<close> itself is a step in the
  sense of \<open>step_ok\<close>. The lemmas follow the structure of the code: a command, a
  sequence, the guard, the loop over the hosts.
\<close>

lemma fatal_last_Nil: "fatal_last rem history [] err"
  by (simp add: fatal_last_def)

lemma fatal_last_append:
  assumes first: "fatal_last rem history new1 None"
    and second: "fatal_last rem (history @ new1) new2 err"
  shows "fatal_last rem history (new1 @ new2) err"
  unfolding fatal_last_def
proof (intro allI impI)
  fix before c after
  assume a: "new1 @ new2 = before @ c # after \<and> \<not> cmd_warn_only c \<and> failed (rem (history @ before) c)"
  then obtain us where "(new1 = before @ us \<and> us @ new2 = c # after) \<or>
      (new1 @ us = before \<and> new2 = us @ c # after)"
    by (auto simp: append_eq_append_conv2)
  then show "after = [] \<and> err = Some SystemExit"
  proof
    assume l: "new1 = before @ us \<and> us @ new2 = c # after"
    show ?thesis
    proof (cases us)
      case Nil
      with l have "new2 = [] @ c # after" "before = new1" by simp_all
      with a second show ?thesis
        unfolding fatal_last_def by (metis append_Nil2)
    next
      case (Cons u us')
      with l have "new1 = before @ c # us'" by simp
      with a first show ?thesis
        unfolding fatal_last_def by blast
    qed
  next
    assume r: "new1 @ us = before \<and> new2 = us @ c # after"
    with a have "failed (rem ((history @ new1) @ us) c)" by auto
    with a r second show ?thesis
      unfolding fatal_last_def by blast
  qed
qed

lemma fetched_extend:
  "fetched base w branch rvn \<Longrightarrow> issued w' = issued w @ new \<Longrightarrow> remote w' = remote w \<Longrightarrow>
   fetched base w' branch rvn"
  unfolding fetched_def by (metis append.assoc append_Cons)

lemma fetched_earlier:
  "fetched (base @ later) w branch rvn \<Longrightarrow> fetched base w branch rvn"
  unfolding fetched_def by (metis append.assoc)

lemma step_okI:
  assumes "w' = w\<lparr>issued := issued w @ new, return_value := rv,
                  env := (env w)\<lparr>env_git_info := info, env_git_revision := rvn\<rparr>\<rparr>"
    and "\<forall>c \<in> set new. cmd_warn_only c \<longrightarrow> is_check w c"
    and "fatal_last (remote w) (issued w) new (raised res)"
    and "info_ok b base w w'" and "rev_ok s w w'" and "cache_ok w w'"
  shows "step_ok b base s w (res, w')"
  unfolding step_ok_def fst_conv snd_conv using assms by blast

lemma step_ok_same: "step_ok b base s w (res, w)"
  unfolding step_ok_def info_ok_def rev_ok_def cache_ok_def
  by (auto intro!: exI [of _ "[]"] exI [of _ "return_value w"] exI [of _ "env_git_info (env w)"]
        exI [of _ "env_git_revision (env w)"] simp: fatal_last_Nil)

lemma step_ok_attr: "step_ok b base s w (attr x w)"
  by (cases x) (simp_all add: attr_def step_ok_same)

lemma info_ok_trans:
  "info_ok b base w w1 \<Longrightarrow> info_ok b base w1 w2 \<Longrightarrow> issued w2 = issued w1 @ new \<Longrightarrow>
   remote w2 = remote w1 \<Longrightarrow> info_ok b base w w2"
  unfolding info_ok_def using fetched_extend by fastforce

lemma rev_ok_trans:
  "rev_ok s w w1 \<Longrightarrow> rev_ok s w1 w2 \<Longrightarrow> info_ok b base w1 w2 \<Longrightarrow> rev_ok s w w2"
  unfolding info_ok_def rev_ok_def by auto

lemma cache_ok_trans: "cache_ok w w1 \<Longrightarrow> cache_ok w1 w2 \<Longrightarrow> cache_ok w w2"
  by (simp add: cache_ok_def)

lemma step_ok_then_do:
  assumes first: "step_ok b base s w m"
    and rest: "\<And>v w1. m = (Inr v, w1) \<Longrightarrow> step_ok b base s w1 (f v w1)"
  shows "step_ok b base s w (then_do m f)"
proof (cases m)
  case (Pair res w1)
  show ?thesis
  proof (cases res)
    case (Inl e)
    with Pair first show ?thesis
      by (simp add: then_do_def step_ok_def raised_def)
  next
    case (Inr v)
    with Pair have m: "m = (Inr v, w1)" by simp
    from first m obtain new1 rv1 info1 rvn1 where
      w1: "w1 = w\<lparr>issued := issued w @ new1, return_value := rv1,
                  env := (env w)\<lparr>env_git_info := info1, env_git_revision := rvn1\<rparr>\<rparr>"
      and warn1: "\<forall>c \<in> set new1. cmd_warn_only c \<longrightarrow> is_check w c"
      and fatal1: "fatal_last (remote w) (issued w) new1 None"
      and info1: "info_ok b base w w1" and rev1: "rev_ok s w w1" and cache1: "cache_ok w w1"
      by (auto simp: step_ok_def raised_def)
    from rest [OF m] obtain new2 rv2 info2 rvn2 where
      w2: "snd (f v w1) = w1\<lparr>issued := issued w1 @ new2, return_value := rv2,
                  env := (env w1)\<lparr>env_git_info := info2, env_git_revision := rvn2\<rparr>\<rparr>"
      and warn2: "\<forall>c \<in> set new2. cmd_warn_only c \<longrightarrow> is_check w1 c"
      and fatal2: "fatal_last (remote w1) (issued w1) new2 (raised (fst (f v w1)))"
      and info2: "info_ok b base w1 (snd (f v w1))" and rev2: "rev_ok s w1 (snd (f v w1))"
      and cache2: "cache_ok w1 (snd (f v w1))"
      by (auto simp: step_ok_def)
    have eq: "then_do m f = f v w1"
      by (simp add: m then_do_def)
    note w2
    also have "w1\<lparr>issued := issued w1 @ new2, return_value := rv2,
                  env := (env w1)\<lparr>env_git_info := info2, env_git_revision := rvn2\<rparr>\<rparr> =
               w\<lparr>issued := issued w @ (new1 @ new2), return_value := rv2,
                  env := (env w)\<lparr>env_git_info := info2, env_git_revision := rvn2\<rparr>\<rparr>"
      by (simp add: w1)
    finally have frame: "snd (f v w1) = w\<lparr>issued := issued w @ (new1 @ new2), return_value := rv2,
                  env := (env w)\<lparr>env_git_info := info2, env_git_revision := rvn2\<rparr>\<rparr>" .
    have check: "is_check w1 c = is_check w c" for c
      by (simp add: is_check_def w1)
    have warn: "\<forall>c \<in> set (new1 @ new2). cmd_warn_only c \<longrightarrow> is_check w c"
      using warn1 warn2 by (auto simp: check)
    have "fatal_last (remote w) (issued w @ new1) new2 (raised (fst (f v w1)))"
      using fatal2 by (simp add: w1)
    with fatal1 have fatal: "fatal_last (remote w) (issued w) (new1 @ new2) (raised (fst (f v w1)))"
      by (rule fatal_last_append)
    have ext: "issued (snd (f v w1)) = issued w1 @ new2" "remote (snd (f v w1)) = remote w1"
      by (simp_all add: w2)
    have info: "info_ok b base w (snd (f v w1))"
      using info1 info2 ext by (rule info_ok_trans)
    have rev: "rev_ok s w (snd (f v w1))"
      using rev1 rev2 info2 by (rule rev_ok_trans)
    have cache: "cache_ok w (snd (f v w1))"
      using cache1 cache2 by (rule cache_ok_trans)
    show ?thesis
      unfolding eq step_ok_def using frame warn fatal info rev cache by blast
  qed
qed

lemma step_ok_run:
  assumes "warn \<Longrightarrow> \<exists>git_dir. env_git_dir (env w) = Some git_dir \<and> cmdline = ''test -d '' @ git_dir"
  shows "step_ok b base s w (run cwd warn cmdline w)"
proof -
  define c where "c = \<lparr>cmd_host = env_host (env w), cmd_cwd = cwd, cmd_text = cmdline,
                cmd_warn_only = warn\<rparr>"
  have snd: "snd (run cwd warn cmdline w) = w\<lparr>issued := issued w @ [c]\<rparr>"
    by (simp add: run_def Let_def c_def)
  have fst: "raised (fst (run cwd warn cmdline w)) =
      (if failed (remote w (issued w) c) \<and> \<not> warn then Some SystemExit else None)"
    by (cases warn) (simp_all add: run_def Let_def c_def raised_def)
  have frame: "snd (run cwd warn cmdline w) = w\<lparr>issued := issued w @ [c], return_value := return_value w,
                  env := (env w)\<lparr>env_git_info := env_git_info (env w),
                     env_git_revision := env_git_revision (env w)\<rparr>\<rparr>"
    by (simp add: snd)
  have warn: "\<forall>c' \<in> set [c]. cmd_warn_only c' \<longrightarrow> is_check w c'"
    using assms by (simp add: c_def is_check_def)
  have fatal: "fatal_last (remote w) (issued w) [c] (raised (fst (run cwd warn cmdline w)))"
  proof -
    have cw: "cmd_warn_only c = warn" by (simp add: c_def)
    show ?thesis
      unfolding fst fatal_last_def by (auto simp: Cons_eq_append_conv cw)
  qed
  have "info_ok b base w (snd (run cwd warn cmdline w))" "rev_ok s w (snd (run cwd warn cmdline w))"
    "cache_ok w (snd (run cwd warn cmdline w))"
    by (simp_all add: snd info_ok_def rev_ok_def cache_ok_def)
  with frame warn fatal show ?thesis
    unfolding step_ok_def by blast
qed

lemma step_ok_weaken: "step_ok None base0 False w m \<Longrightarrow> step_ok b base s w m"
  by (auto simp: step_ok_def info_ok_def rev_ok_def)

lemma step_ok_weaken_rev: "step_ok b base False w m \<Longrightarrow> step_ok b base s w m"
  by (auto simp: step_ok_def rev_ok_def)

lemma step_ok_guard:
  assumes "step_ok b base s w (func args w)"
  shows "step_ok b base s w (inner_decorator required func args w)"
  by (simp add: inner_decorator_cases assms step_ok_same)

lemma attr_Inr: "attr x w = (Inr v, w1) \<longleftrightarrow> x = Some v \<and> w1 = w"
  by (cases x) (auto simp: attr_def)

lemma run_Inr:
  assumes "run cwd warn cmdline w = (Inr res, w1)"
  shows "w1 = w\<lparr>issued := issued w @ [\<lparr>cmd_host = env_host (env w), cmd_cwd = cwd,
                     cmd_text = cmdline, cmd_warn_only = warn\<rparr>]\<rparr> \<and>
         res = remote w (issued w) \<lparr>cmd_host = env_host (env w), cmd_cwd = cwd,
                     cmd_text = cmdline, cmd_warn_only = warn\<rparr>"
  using assms by (auto simp: run_def Let_def split: if_splits)

lemma run_Inr_iff:
  "run cwd warn cmdline w = (Inr res, w1) \<longleftrightarrow>
     w1 = w\<lparr>issued := issued w @ [\<lparr>cmd_host = env_host (env w), cmd_cwd = cwd,
                     cmd_text = cmdline, cmd_warn_only = warn\<rparr>]\<rparr> \<and>
     res = remote w (issued w) \<lparr>cmd_host = env_host (env w), cmd_cwd = cwd,
                     cmd_text = cmdline, cmd_warn_only = warn\<rparr> \<and>
     (failed res \<longrightarrow> warn)"
  by (auto simp: run_def Let_def)

lemma then_do_Inr:
  "then_do m f = (Inr v, w') \<longleftrightarrow> (\<exists>x w1. m = (Inr x, w1) \<and> f x w1 = (Inr v, w'))"
  by (cases m; cases "fst m") (auto simp: then_do_def)

lemma step_ok_run_then:
  assumes "\<And>res w1.
      w1 = w\<lparr>issued := issued w @ [\<lparr>cmd_host = env_host (env w), cmd_cwd = cwd,
                     cmd_text = cmdline, cmd_warn_only = False\<rparr>]\<rparr> \<Longrightarrow>
      res = remote w (issued w) \<lparr>cmd_host = env_host (env w), cmd_cwd = cwd,
                     cmd_text = cmdline, cmd_warn_only = False\<rparr> \<Longrightarrow>
      step_ok b base s w1 (f res w1)"
  shows "step_ok b base s w (then_do (run cwd False cmdline w) f)"
proof (rule step_ok_then_do)
  show "step_ok b base s w (run cwd False cmdline w)"
    by (rule step_ok_run) simp
next
  fix res w1
  assume "run cwd False cmdline w = (Inr res, w1)"
  from run_Inr [OF this] show "step_ok b base s w1 (f res w1)"
    by (intro assms) simp_all
qed

lemma step_ok_check_git_dir: "step_ok None base False w (task_call check_git_dir u w)"
  unfolding check_git_dir_def strict_roles_def Let_def task.simps
proof (rule step_ok_guard)
  fix w :: world
  show "step_ok None base False w
          (then_do (attr (env_git_dir (env w)) w) (\<lambda>git_dir w.
           then_do (run [] True (''test -d '' @ git_dir) w) (\<lambda>git_dir_check w.
             if failed git_dir_check
             then then_do (run ''~/'' False (''git clone '' @ REPO) w) (\<lambda>cloned w. (Inr PyNone, w))
             else (Inr PyNone, w))))"
  proof (rule step_ok_then_do [OF step_ok_attr])
    fix git_dir w1
    assume "attr (env_git_dir (env w)) w = (Inr git_dir, w1)"
    then have dir: "env_git_dir (env w1) = Some git_dir"
      by (simp add: attr_Inr)
    show "step_ok None base False w1
           (then_do (run [] True (''test -d '' @ git_dir) w1) (\<lambda>git_dir_check w.
             if failed git_dir_check
             then then_do (run ''~/'' False (''git clone '' @ REPO) w) (\<lambda>cloned w. (Inr PyNone, w))
             else (Inr PyNone, w)))"
    proof (rule step_ok_then_do)
      show "step_ok None base False w1 (run [] True (''test -d '' @ git_dir) w1)"
        by (rule step_ok_run) (simp add: dir)
    next
      fix git_dir_check w2
      show "step_ok None base False w2
             (if failed git_dir_check
              then then_do (run ''~/'' False (''git clone '' @ REPO) w2) (\<lambda>cloned w. (Inr PyNone, w))
              else (Inr PyNone, w2))"
        by (auto intro!: step_ok_then_do step_ok_run step_ok_same)
    qed
  qed
qed

lemma step_ok_deploy_git: "step_ok None base False w (task_call deploy_git branch w)"
  unfolding deploy_git_def strict_roles_def Let_def task.simps
  by (rule step_ok_guard) (intro step_ok_then_do step_ok_attr step_ok_run step_ok_same; simp)

lemma step_ok_install: "step_ok None base False w (task_call install u w)"
  unfolding install_def strict_roles_def Let_def task.simps
  by (rule step_ok_guard) (intro step_ok_then_do step_ok_attr step_ok_run step_ok_same; simp)

lemma step_ok_restart: "step_ok None base False w (task_call restart u w)"
  unfolding restart_def strict_roles_def Let_def task.simps
  by (rule step_ok_guard) (intro step_ok_then_do step_ok_attr step_ok_run step_ok_same; simp)

lemma step_ok_store_info:
  assumes unset: "env_git_info (env w) = None"
    and got: "fetched base w branch (revision info)"
  shows "step_ok (Some branch) base False w (Inr v, set_env (\<lambda>e. e\<lparr>env_git_info := Some info\<rparr>) w)"
proof -
  have frame: "set_env (\<lambda>e. e\<lparr>env_git_info := Some info\<rparr>) w =
      w\<lparr>issued := issued w @ [], return_value := return_value w,
        env := (env w)\<lparr>env_git_info := Some info, env_git_revision := env_git_revision (env w)\<rparr>\<rparr>"
    by (simp add: set_env_def)
  have "fetched base (set_env (\<lambda>e. e\<lparr>env_git_info := Some info\<rparr>) w) branch (revision info)"
    using got by (simp add: fetched_def set_env_def)
  then have info: "info_ok (Some branch) base w (set_env (\<lambda>e. e\<lparr>env_git_info := Some info\<rparr>) w)"
    using unset by (simp add: info_ok_def set_env_def)
  have rev: "rev_ok False w (set_env (\<lambda>e. e\<lparr>env_git_info := Some info\<rparr>) w)"
    by (simp add: rev_ok_def set_env_def)
  have cache: "cache_ok w (set_env (\<lambda>e. e\<lparr>env_git_info := Some info\<rparr>) w)"
    by (simp add: cache_ok_def set_env_def)
  show ?thesis
    using frame _ _ info rev cache by (rule step_okI) (simp_all add: fatal_last_Nil)
qed

lemma step_ok_git_info:
  assumes since: "prefix base (issued w)"
  shows "step_ok (Some branch) base False w (task_call git_info branch w)"
  unfolding git_info_def strict_roles_def Let_def task.simps
proof (rule step_ok_guard)
  show "step_ok (Some branch) base False w
     (if env_git_info (env w) \<noteq> None then (Inr PyNone, w)
      else
      then_do (attr (env_git_dir (env w)) w) (\<lambda>git_dir w.
      then_do (run git_dir False
                (''git fetch -q origin +'' @ branch @ '':remotes/origin/'' @ branch) w) (\<lambda>fetched' w.
      then_do (run git_dir False (''git rev-parse remotes/origin/'' @ branch) w) (\<lambda>revision' w.
      then_do (run git_dir False
                (''git diff --no-color --name-only remotes/origin/'' @ branch @ '' | cat'') w)
       (\<lambda>changed_files' w.
      then_do (run git_dir False ''git log --no-color -1 --full-history HEAD | cat'' w)
       (\<lambda>previous_commit' w.
      then_do (run git_dir False
                (''git log --no-color -1 --full-history remotes/origin/'' @ branch @ '' | cat'') w)
       (\<lambda>deployed_commit' w.
       (Inr PyNone,
        set_env (\<lambda>e. e\<lparr>env_git_info := Some
           \<lparr>revision = stdout revision',
            previous_commit = stdout previous_commit',
            deployed_commit = stdout deployed_commit',
            changed_files = split_on (CHR 0x0A) (stdout changed_files')\<rparr>\<rparr>) w))))))))"
  proof (cases "env_git_info (env w)")
    case (Some info)
    then show ?thesis by (simp add: step_ok_same)
  next
    case None
    have "step_ok (Some branch) base False w
      (then_do (attr (env_git_dir (env w)) w) (\<lambda>git_dir w.
      then_do (run git_dir False
                (''git fetch -q origin +'' @ branch @ '':remotes/origin/'' @ branch) w) (\<lambda>fetched' w.
      then_do (run git_dir False (''git rev-parse remotes/origin/'' @ branch) w) (\<lambda>revision' w.
      then_do (run git_dir False
                (''git diff --no-color --name-only remotes/origin/'' @ branch @ '' | cat'') w)
       (\<lambda>changed_files' w.
      then_do (run git_dir False ''git log --no-color -1 --full-history HEAD | cat'' w)
       (\<lambda>previous_commit' w.
      then_do (run git_dir False
                (''git log --no-color -1 --full-history remotes/origin/'' @ branch @ '' | cat'') w)
       (\<lambda>deployed_commit' w.
       (Inr PyNone,
        set_env (\<lambda>e. e\<lparr>env_git_info := Some
           \<lparr>revision = stdout revision',
            previous_commit = stdout previous_commit',
            deployed_commit = stdout deployed_commit',
            changed_files = split_on (CHR 0x0A) (stdout changed_files')\<rparr>\<rparr>) w))))))))"
    proof (intro step_ok_then_do [OF step_ok_attr] step_ok_run_then, goal_cases)
      case (1 git_dir w1 fetched' w2 revision' w3 changed_files' w4 previous_commit' w5
              deployed_commit' w6)
      from 1(1) have w1: "w1 = w" by (simp add: attr_Inr)
      have unset: "env_git_info (env w6) = None"
        using None w1 1 by simp
      define c where "c = \<lparr>cmd_host = env_host (env w2), cmd_cwd = git_dir,
            cmd_text = ''git rev-parse remotes/origin/'' @ branch, cmd_warn_only = False\<rparr>"
      from since obtain earlier where "issued w = base @ earlier"
        by (auto simp: prefix_def)
      with 1 w1 obtain before where w2: "issued w2 = base @ before"
        by simp
      have "issued w6 = issued w2 @ c # drop (Suc (length (issued w2))) (issued w6)"
        using 1 by (simp add: c_def)
      with w2 have "issued w6 = base @ before @ c # drop (Suc (length (issued w2))) (issued w6)"
        by simp
      moreover have "cmd_text c = ''git rev-parse remotes/origin/'' @ branch"
        by (simp add: c_def)
      moreover have "stdout revision' = stdout (remote w6 (base @ before) c)"
        using 1 w2 by (simp add: c_def)
      ultimately have "fetched base w6 branch (stdout revision')"
        unfolding fetched_def by blast
      with unset show ?case
        by (intro step_ok_store_info) simp_all
    qed
    with None show ?thesis by simp
  qed
qed

lemma step_ok_host:
  assumes "step_ok b base s (set_env (\<lambda>e. e\<lparr>env_host := Some h\<rparr>) w) (res, w1)"
  shows "env_host (env w1) = Some h"
    and "step_ok b base s w (res, set_env (\<lambda>e. e\<lparr>env_host := env_host (env w)\<rparr>) w1)"
    and "prefix (issued w) (issued w1)"
proof -
  let ?w0 = "set_env (\<lambda>e. e\<lparr>env_host := Some h\<rparr>) w"
  from assms obtain new rv info rvn where
    w1: "w1 = ?w0\<lparr>issued := issued ?w0 @ new, return_value := rv,
                  env := (env ?w0)\<lparr>env_git_info := info, env_git_revision := rvn\<rparr>\<rparr>"
    and warn: "\<forall>c \<in> set new. cmd_warn_only c \<longrightarrow> is_check ?w0 c"
    and fatal: "fatal_last (remote ?w0) (issued ?w0) new (raised res)"
    and info: "info_ok b base ?w0 w1" and rev: "rev_ok s ?w0 w1" and cache: "cache_ok ?w0 w1"
    by (auto simp: step_ok_def)
  show "env_host (env w1) = Some h"
    by (simp add: w1 set_env_def)
  let ?w2 = "set_env (\<lambda>e. e\<lparr>env_host := env_host (env w)\<rparr>) w1"
  have frame: "?w2 = w\<lparr>issued := issued w @ new, return_value := rv,
                  env := (env w)\<lparr>env_git_info := info, env_git_revision := rvn\<rparr>\<rparr>"
    by (simp add: w1 set_env_def)
  have warn': "\<forall>c \<in> set new. cmd_warn_only c \<longrightarrow> is_check w c"
    using warn by (simp add: is_check_def set_env_def)
  have fatal': "fatal_last (remote w) (issued w) new (raised res)"
    using fatal by (simp add: set_env_def)
  have "fetched base ?w2 branch r = fetched base w1 branch r" for branch r
    by (simp add: fetched_def set_env_def)
  with info have info': "info_ok b base w ?w2"
    by (simp add: info_ok_def set_env_def)
  have rev': "rev_ok s w ?w2"
    using rev by (simp add: rev_ok_def set_env_def)
  have cache': "cache_ok w ?w2"
    using cache by (simp add: cache_ok_def set_env_def)
  from frame warn' fatal' info' rev' cache' show "step_ok b base s w (res, ?w2)"
    by (rule step_okI)
  show "prefix (issued w) (issued w1)"
    by (simp add: w1 set_env_def)
qed

lemma step_ok_execute_on:
  assumes task: "\<And>w. prefix base (issued w) \<Longrightarrow> step_ok b base s w (task_call t args w)"
    and since: "prefix base (issued w)"
  shows "step_ok b base s w (execute_on hosts t args results w)"
  using since
proof (induction hosts arbitrary: results w)
  case Nil
  show ?case by (simp add: step_ok_same)
next
  case (Cons h hs)
  obtain res w1 where call: "task_call t args (set_env (\<lambda>e. e\<lparr>env_host := Some h\<rparr>) w) = (res, w1)"
    by (cases "task_call t args (set_env (\<lambda>e. e\<lparr>env_host := Some h\<rparr>) w)")
  have "prefix base (issued (set_env (\<lambda>e. e\<lparr>env_host := Some h\<rparr>) w))"
    using Cons.prems by (simp add: set_env_def)
  from task [OF this] call
  have ok: "step_ok b base s (set_env (\<lambda>e. e\<lparr>env_host := Some h\<rparr>) w) (res, w1)"
    by simp
  let ?w2 = "set_env (\<lambda>e. e\<lparr>env_host := env_host (env w)\<rparr>) w1"
  have unfold: "execute_on (h # hs) t args results w =
      then_do (res, ?w2) (\<lambda>v. execute_on hs t args (AList.update h v results))"
    using step_ok_host(1) [OF ok]
    by (cases res) (simp_all add: call then_do_def)
  have later: "prefix base (issued ?w2)"
    using Cons.prems step_ok_host(3) [OF ok] by (simp add: set_env_def)
  show ?case
    unfolding unfold
  proof (rule step_ok_then_do)
    show "step_ok b base s w (res, ?w2)"
      by (rule step_ok_host(2) [OF ok])
  next
    fix v w3
    assume "(res, ?w2) = (Inr v, w3)"
    with later have "prefix base (issued w3)" by simp
    then show "step_ok b base s w3 (execute_on hs t args (AList.update h v results) w3)"
      by (rule Cons.IH)
  qed
qed

lemma step_ok_execute:
  assumes task: "\<And>w. prefix base (issued w) \<Longrightarrow> step_ok b base s w (task_call t args w)"
    and since: "prefix base (issued w)"
  shows "step_ok b base s w (execute t args w)"
proof (cases "fabric_hosts w (task_roles t) (env w)")
  case (Inl e)
  then show ?thesis by (simp add: execute_def step_ok_same)
next
  case (Inr hosts)
  show ?thesis
  proof (cases hosts)
    case Nil
    with Inr have "execute t args w =
        then_do (task_call t args w) (\<lambda>v w1. (Inr [(''<local-only>'', v)], w1))"
      by (simp add: execute_def)
    then show ?thesis
      by (simp add: step_ok_then_do task since step_ok_same)
  next
    case (Cons h hs)
    with Inr have "execute t args w = execute_on (h # hs) t args [] w"
      by (simp add: execute_def)
    moreover have "step_ok b base s w (execute_on (h # hs) t args [] w)"
      using task since by (rule step_ok_execute_on)
    ultimately show ?thesis
      by simp
  qed
qed

lemma step_ok_execute_plain:
  assumes task: "\<And>w. step_ok None [] False w (task_call t args w)"
  shows "step_ok b base s w (execute t args w)"
  by (rule step_ok_weaken [of "[]"], rule step_ok_execute) (simp_all add: task)

lemma step_ok_execute_check_git_dir: "step_ok b base s w (execute check_git_dir u w)"
  by (rule step_ok_execute_plain) (rule step_ok_check_git_dir)

lemma step_ok_execute_deploy_git: "step_ok b base s w (execute deploy_git branch w)"
  by (rule step_ok_execute_plain) (rule step_ok_deploy_git)

lemma step_ok_execute_install: "step_ok b base s w (execute install u w)"
  by (rule step_ok_execute_plain) (rule step_ok_install)

lemma step_ok_execute_restart: "step_ok b base s w (execute restart u w)"
  by (rule step_ok_execute_plain) (rule step_ok_restart)

lemma step_ok_execute_git_info:
  assumes "prefix base (issued w)"
  shows "step_ok (Some branch) base s w (execute git_info branch w)"
proof (rule step_ok_weaken_rev, rule step_ok_execute)
  show "step_ok (Some branch) base False w' (task_call git_info branch w')"
    if "prefix base (issued w')" for w'
    using that by (rule step_ok_git_info)
  show "prefix base (issued w)"
    by (rule assms)
qed

lemma step_ok_set_revision:
  "step_ok b base True w
     (if \<not> truthy (env_git_revision (env w))
      then then_do (attr (env_git_info (env w)) w) (\<lambda>info w.
             (Inr (), set_env (\<lambda>e. e\<lparr>env_git_revision := Some (revision info)\<rparr>) w))
      else (Inr (), w))"
proof (cases "truthy (env_git_revision (env w))")
  case True
  then show ?thesis by (simp add: step_ok_same)
next
  case False
  have "step_ok b base True w (then_do (attr (env_git_info (env w)) w) (\<lambda>info w.
             (Inr (), set_env (\<lambda>e. e\<lparr>env_git_revision := Some (revision info)\<rparr>) w)))"
  proof (rule step_ok_then_do [OF step_ok_attr])
    fix info w1
    assume "attr (env_git_info (env w)) w = (Inr info, w1)"
    then have w1: "w1 = w" and info: "env_git_info (env w) = Some info"
      by (simp_all add: attr_Inr)
    have frame: "set_env (\<lambda>e. e\<lparr>env_git_revision := Some (revision info)\<rparr>) w =
        w\<lparr>issued := issued w @ [], return_value := return_value w,
          env := (env w)\<lparr>env_git_info := env_git_info (env w),
                          env_git_revision := Some (revision info)\<rparr>\<rparr>"
      by (simp add: set_env_def)
    have "step_ok b base True w (Inr (), set_env (\<lambda>e. e\<lparr>env_git_revision := Some (revision info)\<rparr>) w)"
      by (rule step_okI [OF frame])
         (simp_all add: fatal_last_Nil info_ok_def rev_ok_def cache_ok_def set_env_def False info)
    then show "step_ok b base True w1 (Inr (), set_env (\<lambda>e. e\<lparr>env_git_revision := Some (revision info)\<rparr>) w1)"
      by (simp add: w1)
  qed
  with False show ?thesis by simp
qed

lemma step_ok_cache:
  "step_ok b base s w (Inr v, w\<lparr>return_value := (return_value w)(''deploy'' := x)\<rparr>)"
proof -
  have "w\<lparr>return_value := (return_value w)(''deploy'' := x)\<rparr> =
        w\<lparr>issued := issued w @ [], return_value := (return_value w)(''deploy'' := x),
          env := (env w)\<lparr>env_git_info := env_git_info (env w),
                          env_git_revision := env_git_revision (env w)\<rparr>\<rparr>"
    by simp
  then show ?thesis
    by (rule step_okI) (simp_all add: fatal_last_Nil info_ok_def rev_ok_def cache_ok_def)
qed

lemma step_ok_frame:
  assumes "step_ok b base s w (res, w')"
  shows "servers w' = servers w" "remote w' = remote w" "fabric_hosts w' = fabric_hosts w"
    "env_host (env w') = env_host (env w)" "env_roledefs (env w') = env_roledefs (env w)"
    "env_roles (env w') = env_roles (env w)" "env_user (env w') = env_user (env w)"
    "env_git_dir (env w') = env_git_dir (env w)"
    "env_environment (env w') = env_environment (env w)"
    "env_git_branch (env w') = env_git_branch (env w)"
    "prefix (issued w) (issued w')"
  using assms by (auto simp: step_ok_def)

lemma step_ok_deploy: "step_ok (chosen_branch branch w) (issued w) True w (deploy branch w)"
proof (cases "return_value w ''deploy''")
  case (Some v)
  then show ?thesis
    by (simp add: deploy_def runs_once_def step_ok_same)
next
  case None
  define b where "b = chosen_branch branch w"
  define base where "base = issued w"
  have "step_ok b base True w
     (then_do (execute check_git_dir () w) (\<lambda>checked w.
      then_do (if truthy branch then attr branch w else attr (env_git_branch (env w)) w)
        (\<lambda>branch' w.
      then_do (execute git_info branch' w) (\<lambda>informed w.
      then_do (if \<not> truthy (env_git_revision (env w))
               then then_do (attr (env_git_info (env w)) w) (\<lambda>info w.
                      (Inr (), set_env (\<lambda>e. e\<lparr>env_git_revision := Some (revision info)\<rparr>) w))
               else (Inr (), w))
        (\<lambda>u w.
      then_do (execute deploy_git branch' w) (\<lambda>deployed w.
      then_do (execute install () w) (\<lambda>installed w.
      then_do (execute restart () w) (\<lambda>restarted w.
        (Inr PyNone, w)))))))))"
  proof (rule step_ok_then_do [OF step_ok_execute_check_git_dir])
    fix checked w1
    assume "execute check_git_dir () w = (Inr checked, w1)"
    with step_ok_execute_check_git_dir [where b = b and base = base and s = True
        and w = w and u = "()"]
    have first: "step_ok b base True w (Inr checked, w1)" by simp
    then have br: "chosen_branch branch w1 = b"
      by (simp add: chosen_branch_def b_def step_ok_frame)
    from step_ok_frame(11) [OF first] have since: "prefix base (issued w1)"
      by (simp add: base_def)
    show "step_ok b base True w1
      (then_do (if truthy branch then attr branch w1 else attr (env_git_branch (env w1)) w1)
        (\<lambda>branch' w.
      then_do (execute git_info branch' w) (\<lambda>informed w.
      then_do (if \<not> truthy (env_git_revision (env w))
               then then_do (attr (env_git_info (env w)) w) (\<lambda>info w.
                      (Inr (), set_env (\<lambda>e. e\<lparr>env_git_revision := Some (revision info)\<rparr>) w))
               else (Inr (), w))
        (\<lambda>u w.
      then_do (execute deploy_git branch' w) (\<lambda>deployed w.
      then_do (execute install () w) (\<lambda>installed w.
      then_do (execute restart () w) (\<lambda>restarted w.
        (Inr PyNone, w))))))))"
    proof (rule step_ok_then_do)
      show "step_ok b base True w1 (if truthy branch then attr branch w1 else attr (env_git_branch (env w1)) w1)"
        by (simp add: step_ok_attr)
    next
      fix branch' w2
      assume "(if truthy branch then attr branch w1 else attr (env_git_branch (env w1)) w1)
                = (Inr branch', w2)"
      then have "chosen_branch branch w1 = Some branch'" and w2: "w2 = w1"
        by (auto simp: chosen_branch_def attr_Inr split: if_splits)
      with br have b: "b = Some branch'" by simp
      from since w2 have since': "prefix base (issued w2)" by simp
      show "step_ok b base True w2
        (then_do (execute git_info branch' w2) (\<lambda>informed w.
         then_do (if \<not> truthy (env_git_revision (env w))
               then then_do (attr (env_git_info (env w)) w) (\<lambda>info w.
                      (Inr (), set_env (\<lambda>e. e\<lparr>env_git_revision := Some (revision info)\<rparr>) w))
               else (Inr (), w))
        (\<lambda>u w.
         then_do (execute deploy_git branch' w) (\<lambda>deployed w.
         then_do (execute install () w) (\<lambda>installed w.
         then_do (execute restart () w) (\<lambda>restarted w.
           (Inr PyNone, w)))))))"
        unfolding b
        by (intro step_ok_then_do step_ok_execute_git_info step_ok_set_revision
              step_ok_execute_deploy_git step_ok_execute_install step_ok_execute_restart
              step_ok_same since')
    qed
  qed
  then have "step_ok b base True w (deploy branch w)"
    using None unfolding deploy_def runs_once_def
    by (simp add: step_ok_then_do step_ok_cache)
  then show ?thesis by (simp add: b_def base_def)
qed

lemma task_frame:
  assumes "step_ok None base False w (res, w')"
  shows "env w' = env w" and "remote w' = remote w" and "\<exists>new. issued w' = issued w @ new"
  using assms by (auto simp: step_ok_def info_ok_def rev_ok_def)

lemma info_task_frame:
  assumes "step_ok (Some b) base False w (res, w')"
  shows "env w' = (env w)\<lparr>env_git_info := env_git_info (env w')\<rparr>"
    and "remote w' = remote w" and "\<exists>new. issued w' = issued w @ new"
    and "env_git_info (env w) = None \<Longrightarrow> env_git_info (env w') = Some info \<Longrightarrow>
           fetched base w' b (revision info)"
  using assms by (auto simp: step_ok_def info_ok_def rev_ok_def)


section \<open>The example worlds, evaluated\<close>

lemma servers_prod:
  "fst (get_roledefs ''prod'' (fresh_world SERVERS rem)) = [(''transcript'', [prod_host])]"
  by (simp add: get_roledefs_def fresh_world_def SERVERS_def prod_host_def)

lemma get_roledefs_servers:
  "servers w1 = servers w2 \<Longrightarrow> fst (get_roledefs e w1) = fst (get_roledefs e w2)"
  by (simp add: get_roledefs_def Let_def)

lemma snd_get_roledefs: "snd (get_roledefs e w) = w"
  by (simp add: get_roledefs_def Let_def)

lemma distinct_get_roledefs: "distinct (map fst (fst (get_roledefs e w)))"
  by (simp add: get_roledefs_def Let_def distinct_fold_update)

lemma prod_first_call:
  assumes "return_value w ''prod'' = None"
  shows "prod u w =
    (Inr PyNone,
     w\<lparr>env := (env w)\<lparr>env_environment := Some ''prod'', env_user := ''transcript'',
           env_git_dir := Some ''/opt/transcript/transcript-editor'',
           env_roledefs := fst (get_roledefs ''prod'' w),
           env_roles := map fst (filter (\<lambda>(role, hosts). hosts \<noteq> [])
                                   (fst (get_roledefs ''prod'' w))),
           env_git_branch := Some ''master''\<rparr>,
        return_value := (return_value w)(''prod'' := Some PyNone)\<rparr>)"
proof -
  let ?w2 = "w\<lparr>env := (env w)\<lparr>env_environment := Some ''prod'', env_user := ''transcript'',
           env_git_dir := Some ''/opt/transcript/transcript-editor''\<rparr>\<rparr>"
  have "get_roledefs ''prod'' ?w2 = (fst (get_roledefs ''prod'' w), ?w2)"
    using get_roledefs_servers [of ?w2 w "''prod''"] snd_get_roledefs [of "''prod''" ?w2]
    by (cases "get_roledefs ''prod'' ?w2") simp
  then show ?thesis
    using assms
    by (simp add: prod_def runs_once_def then_do_def load_shared_env_dict_def set_env_def
          attr_def Let_def)
qed

lemma prod_cached: "return_value w ''prod'' = Some v \<Longrightarrow> prod u w = (Inr v, w)"
  by (simp add: prod_def runs_once_def)

lemma prod_world_value:
  "prod_world rem h =
     \<lparr>servers = SERVERS,
      env = \<lparr>env_host = h, env_roledefs = [(''transcript'', [prod_host])],
             env_roles = [''transcript''], env_user = ''transcript'',
             env_git_dir = Some ''/opt/transcript/transcript-editor'',
             env_environment = Some ''prod'', env_git_branch = Some ''master'',
             env_git_revision = None, env_git_info = None\<rparr>,
      return_value = (\<lambda>name. None)(''prod'' := Some PyNone),
      issued = [],
      remote = rem,
      fabric_hosts = fabric_merge\<rparr>"
proof -
  have "return_value (fresh_world SERVERS rem) ''prod'' = None"
    by (simp add: fresh_world_def)
  from prod_first_call [OF this, of "()"] show ?thesis
    unfolding prod_world_def servers_prod
    by (simp add: fresh_world_def set_env_def)
qed

lemmas run_defs =
  deploy_def r_def runs_once_def execute_def fabric_merge_def truthy_def check_git_dir_def
  deploy_git_def install_def restart_def git_info_def strict_roles_def Let_def host_in_def
  dict_get_def then_do_def attr_def run_def set_env_def remote_ok_def remote_failing_def
  prod_host_def REPO_def

lemma demo_world_value:
  "demo_world =
     \<lparr>servers = SERVERS,
      env = \<lparr>env_host = Some prod_host, env_roledefs = [(''transcript'', [prod_host])],
             env_roles = [''transcript''], env_user = ''transcript'',
             env_git_dir = Some ''/opt/transcript/transcript-editor'',
             env_environment = Some ''prod'', env_git_branch = Some ''master'',
             env_git_revision = None, env_git_info = None\<rparr>,
      return_value = (\<lambda>name. None)(''prod'' := Some PyNone),
      issued = [],
      remote = remote_ok ''4f2a9c1'',
      fabric_hosts = fabric_merge\<rparr>"
  by (simp add: demo_world_def prod_world_value)

lemma tagged_world_value:
  "tagged_world revision' =
     \<lparr>servers = SERVERS,
      env = \<lparr>env_host = Some prod_host, env_roledefs = [(''transcript'', [prod_host])],
             env_roles = [''transcript''], env_user = ''transcript'',
             env_git_dir = Some ''/opt/transcript/transcript-editor'',
             env_environment = Some ''prod'', env_git_branch = Some ''master'',
             env_git_revision = Some revision', env_git_info = None\<rparr>,
      return_value = (\<lambda>name. None)(''prod'' := Some PyNone, ''r'' := Some PyNone),
      issued = [],
      remote = remote_ok ''4f2a9c1'',
      fabric_hosts = fabric_merge\<rparr>"
  by (simp add: tagged_world_def demo_world_value r_def runs_once_def then_do_def set_env_def)

lemma broken_world_value:
  "broken_world =
     \<lparr>servers = SERVERS,
      env = \<lparr>env_host = Some prod_host, env_roledefs = [(''transcript'', [prod_host])],
             env_roles = [''transcript''], env_user = ''transcript'',
             env_git_dir = Some ''/opt/transcript/transcript-editor'',
             env_environment = Some ''prod'', env_git_branch = Some ''master'',
             env_git_revision = None, env_git_info = None\<rparr>,
      return_value = (\<lambda>name. None)(''prod'' := Some PyNone),
      issued = [],
      remote = remote_failing [''test -d /opt/transcript/transcript-editor'',
                               ''git reset --hard remotes/origin/master''],
      fabric_hosts = fabric_merge\<rparr>"
  by (simp add: broken_world_def prod_world_value)

lemma deploy_demo_world:
  "fst (deploy None demo_world) = Inr PyNone"
  "env_git_revision (env (snd (deploy None demo_world))) = Some ''4f2a9c1''"
  unfolding demo_world_value by (simp_all add: run_defs)

lemma deploy_blank_world:
  "fst (deploy None (tagged_world [])) = Inr PyNone"
  "env_git_revision (env (snd (deploy None (tagged_world [])))) = Some ''4f2a9c1''"
  unfolding tagged_world_value by (simp_all add: run_defs)

lemma deploy_broken_world: "issued (snd (deploy None broken_world)) = broken_log"
  unfolding broken_world_value broken_log_def by (simp add: run_defs)

lemma check_broken_world:
  "issued (snd (task_call check_git_dir () broken_world)) = take 2 broken_log"
  unfolding broken_world_value broken_log_def by (simp add: run_defs)

lemma git_info_demo_world:
  "fst (task_call git_info ''master'' demo_world) = Inr PyNone"
  "env_git_info (env (snd (task_call git_info ''master'' demo_world))) =
     Some \<lparr>revision = ''4f2a9c1'', previous_commit = ''4f2a9c1'',
            deployed_commit = ''4f2a9c1'', changed_files = [''4f2a9c1'']\<rparr>"
  "length (issued (snd (task_call git_info ''master'' demo_world))) = 5"
  unfolding demo_world_value by (simp_all add: run_defs)


section \<open>The context after \<^verbatim>\<open>prod\<close>\<close>

lemma prod_done_first:
  assumes "return_value w ''prod'' = None" and "prod u w = (res, w')"
  shows "res = Inr PyNone \<and> prod_done w'"
proof -
  from assms prod_first_call [OF assms(1), of u] have res: "res = Inr PyNone" and
    w': "w' = w\<lparr>env := (env w)\<lparr>env_environment := Some ''prod'', env_user := ''transcript'',
           env_git_dir := Some ''/opt/transcript/transcript-editor'',
           env_roledefs := fst (get_roledefs ''prod'' w),
           env_roles := map fst (filter (\<lambda>(role, hosts). hosts \<noteq> [])
                                   (fst (get_roledefs ''prod'' w))),
           env_git_branch := Some ''master''\<rparr>,
        return_value := (return_value w)(''prod'' := Some PyNone)\<rparr>"
    by simp_all
  have "fst (get_roledefs ''prod'' w') = fst (get_roledefs ''prod'' w)"
    by (rule get_roledefs_servers) (simp add: w')
  then have "prod_done w'"
    by (simp add: prod_done_def) (simp add: w')
  with res show ?thesis by simp
qed

lemma r_call:
  "r revision' w = (res, w') \<Longrightarrow>
     w' = w \<or> w' = w\<lparr>env := (env w)\<lparr>env_git_revision := Some revision'\<rparr>,
                     return_value := (return_value w)(''r'' := Some PyNone)\<rparr>"
  by (auto simp: r_def runs_once_def then_do_def set_env_def split: option.splits)

lemma reachable_prod_done:
  "reachable w \<Longrightarrow> return_value w ''prod'' = None \<or> prod_done w"
proof (induction rule: reachable.induct)
  case (start w)
  then show ?case by simp
next
  case (host w h)
  have "fst (get_roledefs ''prod'' (set_env (\<lambda>e. e\<lparr>env_host := h\<rparr>) w)) = fst (get_roledefs ''prod'' w)"
    by (rule get_roledefs_servers) (simp add: set_env_def)
  with host.IH show ?case
    by (auto simp: prod_done_def) (simp_all add: set_env_def)
next
  case (prod w u v w')
  show ?case
  proof (cases "return_value w ''prod''")
    case None
    with prod.hyps show ?thesis
      using prod_done_first by blast
  next
    case (Some x)
    with prod.hyps have "w' = w" by (simp add: prod_cached)
    with Some prod.IH show ?thesis by simp
  qed
next
  case (r w revision' v w')
  from r_call [OF r.hyps(2)] show ?case
  proof
    assume "w' = w"
    with r.IH show ?thesis by simp
  next
    assume w': "w' = w\<lparr>env := (env w)\<lparr>env_git_revision := Some revision'\<rparr>,
                     return_value := (return_value w)(''r'' := Some PyNone)\<rparr>"
    have "fst (get_roledefs ''prod'' w') = fst (get_roledefs ''prod'' w)"
      by (rule get_roledefs_servers) (simp add: w')
    with r.IH show ?thesis
      by (auto simp: prod_done_def) (simp_all add: w')
  qed
next
  case (deploy w branch v w')
  from step_ok_deploy [of branch w] deploy.hyps(2)
  have ok: "step_ok (chosen_branch branch w) (issued w) True w (Inr v :: error + pyval, w')"
    by simp
  then have cache: "return_value w' ''prod'' = return_value w ''prod''"
    by (simp add: step_ok_def cache_ok_def)
  have "fst (get_roledefs ''prod'' w') = fst (get_roledefs ''prod'' w)"
    by (rule get_roledefs_servers) (rule step_ok_frame [OF ok])
  with deploy.IH cache show ?case
    by (auto simp: prod_done_def step_ok_frame [OF ok])
qed

lemma active_roles:
  assumes "distinct (map fst rd)"
  shows "set (map fst (filter (\<lambda>(role, hosts). hosts \<noteq> []) rd)) =
           {role. \<exists>hosts. map_of rd role = Some hosts \<and> hosts \<noteq> []}"
  using assms by (induction rd) (auto simp: rev_image_eqI)

lemma reachable_fresh: "reachable (fresh_world srv rem)"
  by (rule reachable.start) (simp_all add: fresh_world_def)

lemma reachable_tagged_world: "reachable (tagged_world revision')"
proof -
  let ?w = "fresh_world SERVERS (remote_ok ''4f2a9c1'')"
  have "return_value ?w ''prod'' = None"
    by (simp add: fresh_world_def)
  from prod_first_call [OF this, of "()"]
  have "prod () ?w = (Inr PyNone, snd (prod () ?w))"
    by simp
  with reachable_fresh have "reachable (snd (prod () ?w))"
    by (rule reachable.prod)
  then have "reachable (set_env (\<lambda>e. e\<lparr>env_host := Some prod_host\<rparr>) (snd (prod () ?w)))"
    by (rule reachable.host)
  then have demo: "reachable demo_world"
    by (simp add: demo_world_def prod_world_def)
  have "r revision' demo_world = (Inr PyNone, tagged_world revision')"
    unfolding tagged_world_def demo_world_value
    by (simp add: r_def runs_once_def then_do_def)
  with demo show ?thesis
    by (rule reachable.r)
qed


text \<open>
  Claim C7. In every world a \<^verbatim>\<open>fab\<close> process can reach, a call of \<^verbatim>\<open>prod\<close> returns
  \<^verbatim>\<open>None\<close> and leaves \<^verbatim>\<open>env.environment = 'prod'\<close>, \<^verbatim>\<open>env.git_branch = 'master'\<close>,
  \<^verbatim>\<open>env.roledefs\<close> equal to \<^verbatim>\<open>_get_roledefs('prod')\<close>, and in \<^verbatim>\<open>env.roles\<close> exactly the
  keys of \<^verbatim>\<open>env.roledefs\<close> that have at least one host, each once. (\<^verbatim>\<open>prod\<close> runs once:
  a later call changes nothing, and nothing the script does in between touches
  these attributes.)
\<close>

theorem prod_sets_context:
  assumes "reachable w" and "prod u w = (res, w')"
  shows "res = Inr PyNone \<and>
     env_environment (env w') = Some ''prod'' \<and>
     env_git_branch (env w') = Some ''master'' \<and>
     env_roledefs (env w') = fst (get_roledefs ''prod'' w') \<and>
     distinct (env_roles (env w')) \<and>
     set (env_roles (env w')) =
       {role. \<exists>hosts. map_of (env_roledefs (env w')) role = Some hosts \<and> hosts \<noteq> []}"
proof -
  have fin: "res = Inr PyNone \<and> prod_done w'"
  proof (cases "return_value w ''prod''")
    case None
    then show ?thesis using assms(2) by (rule prod_done_first)
  next
    case (Some x)
    with assms(2) have same: "w' = w" "res = Inr x" by (simp_all add: prod_cached)
    from reachable_prod_done [OF assms(1)] Some have "prod_done w" by simp
    with same Some show ?thesis by (simp add: prod_done_def)
  qed
  then have rd: "env_roledefs (env w') = fst (get_roledefs ''prod'' w')"
    and roles: "env_roles (env w') =
        map fst (filter (\<lambda>(role, hosts). hosts \<noteq> []) (env_roledefs (env w')))"
    by (simp_all add: prod_done_def)
  have dist: "distinct (map fst (env_roledefs (env w')))"
    unfolding rd by (rule distinct_get_roledefs)
  have "distinct (env_roles (env w'))"
    unfolding roles using dist by (simp add: distinct_map_filter)
  moreover have "set (env_roles (env w')) =
       {role. \<exists>hosts. map_of (env_roledefs (env w')) role = Some hosts \<and> hosts \<noteq> []}"
    unfolding roles using dist by (rule active_roles)
  ultimately show ?thesis
    using fin rd by (simp add: prod_done_def)
qed

theorem prod_sets_context_witness:
  "reachable (fresh_world SERVERS (remote_ok ''4f2a9c1'')) \<and>
   fst (prod () (fresh_world SERVERS (remote_ok ''4f2a9c1''))) = Inr PyNone \<and>
   env_environment (env (snd (prod () (fresh_world SERVERS (remote_ok ''4f2a9c1''))))) =
     Some ''prod'' \<and>
   env_git_branch (env (snd (prod () (fresh_world SERVERS (remote_ok ''4f2a9c1''))))) =
     Some ''master'' \<and>
   env_roledefs (env (snd (prod () (fresh_world SERVERS (remote_ok ''4f2a9c1''))))) =
     [(''transcript'', [prod_host])] \<and>
   set (env_roles (env (snd (prod () (fresh_world SERVERS (remote_ok ''4f2a9c1'')))))) =
     {''transcript''} \<and>
   reachable (tagged_world ''v1.2'') \<and>
   fst (prod () (tagged_world ''v1.2'')) = Inr PyNone \<and>
   env_git_branch (env (snd (prod () (tagged_world ''v1.2'')))) = Some ''master'' \<and>
   env_git_revision (env (snd (prod () (tagged_world ''v1.2'')))) = Some ''v1.2''"
proof -
  let ?w = "fresh_world SERVERS (remote_ok ''4f2a9c1'')"
  have first: "prod () ?w = (fst (prod () ?w), snd (prod () ?w))"
    by simp
  note post = prod_sets_context [OF reachable_fresh first]
  have "servers (snd (prod () ?w)) = servers ?w"
    by (simp add: prod_first_call fresh_world_def)
  then have "fst (get_roledefs ''prod'' (snd (prod () ?w))) = fst (get_roledefs ''prod'' ?w)"
    by (rule get_roledefs_servers)
  with post have rd: "env_roledefs (env (snd (prod () ?w))) = [(''transcript'', [prod_host])]"
    by (simp add: servers_prod)
  with post have roles: "set (env_roles (env (snd (prod () ?w)))) = {''transcript''}"
    by auto
  let ?t = "tagged_world ''v1.2''"
  have again: "prod () ?t = (fst (prod () ?t), snd (prod () ?t))"
    by simp
  note post' = prod_sets_context [OF reachable_tagged_world again]
  have "snd (prod () ?t) = ?t"
    by (simp add: prod_cached tagged_world_value)
  then have "env_git_revision (env (snd (prod () ?t))) = Some ''v1.2''"
    by (simp add: tagged_world_value)
  with post rd roles post' reachable_fresh reachable_tagged_world show ?thesis
    by simp
qed


section \<open>Remote failures\<close>

lemma check_git_dir_log:
  "issued (snd (task_call check_git_dir u w)) = issued w @
     (if holds_role w ''transcript''
      then (case env_git_dir (env w) of
              None \<Rightarrow> []
            | Some git_dir \<Rightarrow>
                \<lparr>cmd_host = env_host (env w), cmd_cwd = [], cmd_text = ''test -d '' @ git_dir,
                  cmd_warn_only = True\<rparr> #
                (if failed (remote w (issued w)
                      \<lparr>cmd_host = env_host (env w), cmd_cwd = [],
                        cmd_text = ''test -d '' @ git_dir, cmd_warn_only = True\<rparr>)
                 then [\<lparr>cmd_host = env_host (env w), cmd_cwd = ''~/'',
                         cmd_text = ''git clone '' @ REPO, cmd_warn_only = False\<rparr>]
                 else []))
      else [])"
  unfolding check_git_dir_def strict_roles_def Let_def task.simps inner_decorator_cases
  by (simp add: then_do_def attr_def run_def Let_def split: option.splits)


text \<open>
  Claim C8. Of the commands \<^verbatim>\<open>deploy\<close> issues, only the existence check
  \<^verbatim>\<open>test -d DIR\<close> runs in \<^verbatim>\<open>warn_only\<close> mode; a command outside that mode that
  fails is the last command issued and \<^verbatim>\<open>deploy\<close> ends with \<^verbatim>\<open>SystemExit\<close>. A call of
  \<^verbatim>\<open>_check_git_dir\<close> issues \<^verbatim>\<open>git clone\<close> exactly when it has issued the existence check
  and the check failed.
\<close>

theorem warn_only_and_abort:
  "(\<exists>new. issued (snd (deploy branch w)) = issued w @ new \<and>
      (\<forall>c \<in> set new. cmd_warn_only c \<longrightarrow>
         (\<exists>git_dir. env_git_dir (env w) = Some git_dir \<and> cmd_text c = ''test -d '' @ git_dir)) \<and>
      (\<forall>before c after.
         new = before @ c # after \<and> \<not> cmd_warn_only c \<and>
         failed (remote w (issued w @ before) c)
         \<longrightarrow> after = [] \<and> fst (deploy branch w) = Inl SystemExit)) \<and>
   (\<exists>new. issued (snd (task_call check_git_dir u w)) = issued w @ new \<and>
      ((\<exists>c \<in> set new. cmd_text c = ''git clone '' @ REPO) \<longleftrightarrow>
       (\<exists>c \<in> set new. \<exists>git_dir. env_git_dir (env w) = Some git_dir \<and>
          cmd_text c = ''test -d '' @ git_dir \<and> cmd_warn_only c \<and>
          failed (remote w (issued w) c))))"
proof -
  from step_ok_deploy [of branch w] obtain new where
    log: "issued (snd (deploy branch w)) = issued w @ new" and
    warn: "\<forall>c \<in> set new. cmd_warn_only c \<longrightarrow> is_check w c" and
    fatal: "fatal_last (remote w) (issued w) new (raised (fst (deploy branch w)))"
    by (auto simp: step_ok_def)
  have abort: "raised res = Some SystemExit \<Longrightarrow> res = Inl SystemExit" for res :: "error + pyval"
    by (cases res) (simp_all add: raised_def)
  have first: "\<exists>new. issued (snd (deploy branch w)) = issued w @ new \<and>
      (\<forall>c \<in> set new. cmd_warn_only c \<longrightarrow>
         (\<exists>git_dir. env_git_dir (env w) = Some git_dir \<and> cmd_text c = ''test -d '' @ git_dir)) \<and>
      (\<forall>before c after.
         new = before @ c # after \<and> \<not> cmd_warn_only c \<and>
         failed (remote w (issued w @ before) c)
         \<longrightarrow> after = [] \<and> fst (deploy branch w) = Inl SystemExit)"
  proof (intro exI [of _ new] conjI)
    show "issued (snd (deploy branch w)) = issued w @ new"
      by (rule log)
    show "\<forall>c \<in> set new. cmd_warn_only c \<longrightarrow>
         (\<exists>git_dir. env_git_dir (env w) = Some git_dir \<and> cmd_text c = ''test -d '' @ git_dir)"
      using warn by (simp add: is_check_def)
    show "\<forall>before c after.
         new = before @ c # after \<and> \<not> cmd_warn_only c \<and>
         failed (remote w (issued w @ before) c)
         \<longrightarrow> after = [] \<and> fst (deploy branch w) = Inl SystemExit"
      using fatal abort unfolding fatal_last_def by blast
  qed
  define new2 where "new2 =
     (if holds_role w ''transcript''
      then (case env_git_dir (env w) of
              None \<Rightarrow> []
            | Some git_dir \<Rightarrow>
                \<lparr>cmd_host = env_host (env w), cmd_cwd = [], cmd_text = ''test -d '' @ git_dir,
                  cmd_warn_only = True\<rparr> #
                (if failed (remote w (issued w)
                      \<lparr>cmd_host = env_host (env w), cmd_cwd = [],
                        cmd_text = ''test -d '' @ git_dir, cmd_warn_only = True\<rparr>)
                 then [\<lparr>cmd_host = env_host (env w), cmd_cwd = ''~/'',
                         cmd_text = ''git clone '' @ REPO, cmd_warn_only = False\<rparr>]
                 else []))
      else [])"
  have log2: "issued (snd (task_call check_git_dir u w)) = issued w @ new2"
    unfolding new2_def by (rule check_git_dir_log)
  have clone: "(\<exists>c \<in> set new2. cmd_text c = ''git clone '' @ REPO) \<longleftrightarrow>
       (\<exists>c \<in> set new2. \<exists>git_dir. env_git_dir (env w) = Some git_dir \<and>
          cmd_text c = ''test -d '' @ git_dir \<and> cmd_warn_only c \<and>
          failed (remote w (issued w) c))"
    unfolding new2_def
    by (cases "holds_role w ''transcript''"; cases "env_git_dir (env w)")
       (simp_all add: REPO_def)
  from log2 clone
  have second: "\<exists>new. issued (snd (task_call check_git_dir u w)) = issued w @ new \<and>
      ((\<exists>c \<in> set new. cmd_text c = ''git clone '' @ REPO) \<longleftrightarrow>
       (\<exists>c \<in> set new. \<exists>git_dir. env_git_dir (env w) = Some git_dir \<and>
          cmd_text c = ''test -d '' @ git_dir \<and> cmd_warn_only c \<and>
          failed (remote w (issued w) c)))"
    by blast
  from first second show ?thesis by blast
qed

theorem warn_only_and_abort_witness:
  "issued (snd (deploy None broken_world)) = issued broken_world @ broken_log \<and>
   cmd_warn_only (broken_log ! 0) \<and>
   cmd_text (broken_log ! 0) = ''test -d /opt/transcript/transcript-editor'' \<and>
   broken_log = take 8 broken_log @ (broken_log ! 8) # [] \<and>
   \<not> cmd_warn_only (broken_log ! 8) \<and>
   failed (remote broken_world (issued broken_world @ take 8 broken_log) (broken_log ! 8)) \<and>
   fst (deploy None broken_world) = Inl SystemExit \<and>
   issued (snd (task_call check_git_dir () broken_world)) =
     issued broken_world @ take 2 broken_log \<and>
   cmd_text (take 2 broken_log ! 1) = ''git clone '' @ REPO \<and>
   failed (remote broken_world (issued broken_world) (take 2 broken_log ! 0))"
proof -
  have start: "issued broken_world = []"
    "env_git_dir (env broken_world) = Some ''/opt/transcript/transcript-editor''"
    by (simp_all add: broken_world_value)
  have last: "broken_log = take 8 broken_log @ (broken_log ! 8) # []"
    "\<not> cmd_warn_only (broken_log ! 8)"
    "failed (remote broken_world (issued broken_world @ take 8 broken_log) (broken_log ! 8))"
    by (simp_all add: broken_log_def broken_world_value remote_failing_def)
  have check: "cmd_warn_only (broken_log ! 0)"
    "cmd_text (broken_log ! 0) = ''test -d /opt/transcript/transcript-editor''"
    "cmd_text (take 2 broken_log ! 1) = ''git clone '' @ REPO"
    "failed (remote broken_world (issued broken_world) (take 2 broken_log ! 0))"
    by (simp_all add: broken_log_def broken_world_value remote_failing_def REPO_def)
  from warn_only_and_abort [of None broken_world "()"] obtain new where
    new: "issued (snd (deploy None broken_world)) = issued broken_world @ new" and
    fatal: "\<forall>before c after.
         new = before @ c # after \<and> \<not> cmd_warn_only c \<and>
         failed (remote broken_world (issued broken_world @ before) c)
         \<longrightarrow> after = [] \<and> fst (deploy None broken_world) = Inl SystemExit"
    by blast
  from new have "new = broken_log"
    by (simp add: deploy_broken_world start)
  with fatal last have "fst (deploy None broken_world) = Inl SystemExit"
    by blast
  with start last check show ?thesis
    by (simp add: deploy_broken_world check_broken_world)
qed


section \<open>The revision to deploy\<close>

text \<open>
  Claim C9. When \<^verbatim>\<open>env.git_revision\<close> is truthy, \<^verbatim>\<open>deploy\<close> leaves it as it is, whatever
  the outcome. When it is missing or empty, \<^verbatim>\<open>deploy\<close> writes nothing into it but the
  revision of \<^verbatim>\<open>env.git_info\<close>, whatever the outcome; and when \<^verbatim>\<open>deploy\<close> runs (no
  \<^verbatim>\<open>return_value\<close> is stored for it) and returns, \<^verbatim>\<open>env.git_revision\<close> is the revision of
  \<^verbatim>\<open>env.git_info\<close>, which, when no \<^verbatim>\<open>env.git_info\<close> was there before, is the answer to the
  \<^verbatim>\<open>git rev-parse\<close> of the chosen branch that \<^verbatim>\<open>_git_info\<close> issued during this call.
\<close>

theorem deploy_git_revision:
  "(truthy (env_git_revision (env w)) \<longrightarrow>
      env_git_revision (env (snd (deploy branch w))) = env_git_revision (env w)) \<and>
   (\<not> truthy (env_git_revision (env w)) \<longrightarrow>
      env_git_revision (env (snd (deploy branch w))) = env_git_revision (env w) \<or>
      (\<exists>info. env_git_info (env (snd (deploy branch w))) = Some info \<and>
         env_git_revision (env (snd (deploy branch w))) = Some (revision info))) \<and>
   (\<not> truthy (env_git_revision (env w)) \<and> return_value w ''deploy'' = None \<and>
    deploy branch w = (Inr v, w') \<longrightarrow>
      (\<exists>info. env_git_info (env w') = Some info \<and>
         env_git_revision (env w') = Some (revision info) \<and>
         (env_git_info (env w) = None \<longrightarrow>
            (\<exists>b. chosen_branch branch w = Some b \<and> fetched (issued w) w' b (revision info)))))"
proof -
  have keep: "env_git_revision (env (snd (deploy branch w))) = env_git_revision (env w)"
    if "truthy (env_git_revision (env w))"
    using step_ok_deploy [of branch w] that by (simp add: step_ok_def rev_ok_def)
  have nothing_else:
    "env_git_revision (env (snd (deploy branch w))) = env_git_revision (env w) \<or>
      (\<exists>info. env_git_info (env (snd (deploy branch w))) = Some info \<and>
         env_git_revision (env (snd (deploy branch w))) = Some (revision info))"
  proof -
    from step_ok_deploy [of branch w] have "rev_ok True w (snd (deploy branch w))"
      by (simp add: step_ok_def)
    then show ?thesis
      unfolding rev_ok_def by blast
  qed
  have overwrite: "\<exists>info. env_git_info (env w') = Some info \<and>
         env_git_revision (env w') = Some (revision info) \<and>
         (env_git_info (env w) = None \<longrightarrow>
            (\<exists>b. chosen_branch branch w = Some b \<and> fetched (issued w) w' b (revision info)))"
    if falsy: "\<not> truthy (env_git_revision (env w))"
      and fresh: "return_value w ''deploy'' = None"
      and returns: "deploy branch w = (Inr v, w')"
  proof -
    from returns fresh obtain checked w1 b w2 informed w3 u4 w4 deployed w5 installed w6
        restarted w7 where
      e1: "execute check_git_dir () w = (Inr checked, w1)" and
      e2: "(if truthy branch then attr branch w1 else attr (env_git_branch (env w1)) w1)
             = (Inr b, w2)" and
      e3: "execute git_info b w2 = (Inr informed, w3)" and
      e4: "(if \<not> truthy (env_git_revision (env w3))
            then then_do (attr (env_git_info (env w3)) w3) (\<lambda>info w.
                   (Inr (), set_env (\<lambda>e. e\<lparr>env_git_revision := Some (revision info)\<rparr>) w))
            else (Inr (), w3)) = (Inr u4, w4)" and
      e5: "execute deploy_git b w4 = (Inr deployed, w5)" and
      e6: "execute install () w5 = (Inr installed, w6)" and
      e7: "execute restart () w6 = (Inr restarted, w7)" and
      e8: "w' = w7\<lparr>return_value := (return_value w7)(''deploy'' := Some PyNone)\<rparr>"
      unfolding deploy_def runs_once_def by (simp add: then_do_Inr) blast
    have s1: "step_ok None [] False w (Inr checked, w1)"
      using step_ok_execute_check_git_dir [where b = None and base = "[]" and s = False
          and w = w and u = "()"] e1
      by simp
    have s3: "step_ok (Some b) (issued w2) False w2 (Inr informed, w3)"
      using step_ok_execute_git_info [where base = "issued w2" and w = w2 and branch = b
          and s = False] e3
      by simp
    have s5: "step_ok None [] False w4 (Inr deployed, w5)"
      using step_ok_execute_deploy_git [where b = None and base = "[]" and s = False
          and w = w4 and branch = b] e5
      by simp
    have s6: "step_ok None [] False w5 (Inr installed, w6)"
      using step_ok_execute_install [where b = None and base = "[]" and s = False
          and w = w5 and u = "()"] e6
      by simp
    have s7: "step_ok None [] False w6 (Inr restarted, w7)"
      using step_ok_execute_restart [where b = None and base = "[]" and s = False
          and w = w6 and u = "()"] e7
      by simp
    note f1 = task_frame [OF s1] and f3 = info_task_frame [OF s3] and f5 = task_frame [OF s5]
      and f6 = task_frame [OF s6] and f7 = task_frame [OF s7]
    from e2 have w2: "w2 = w1" and b: "chosen_branch branch w = Some b"
      by (auto simp: attr_Inr chosen_branch_def f1(1) split: if_splits)
    have "env_git_revision (env w3) = env_git_revision (env w)"
      using f3(1) [THEN arg_cong, of env_git_revision] by (simp add: w2 f1(1))
    with falsy e4 obtain info where
      info: "env_git_info (env w3) = Some info" and
      w4: "w4 = set_env (\<lambda>e. e\<lparr>env_git_revision := Some (revision info)\<rparr>) w3"
      by (auto simp: then_do_Inr attr_Inr)
    have env': "env w' = env w4"
      by (simp add: e8 f7(1) f6(1) f5(1))
    have stored: "env_git_info (env w') = Some info"
      "env_git_revision (env w') = Some (revision info)"
      by (simp_all add: env' w4 set_env_def info)
    have "fetched (issued w) w' b (revision info)" if "env_git_info (env w) = None"
    proof -
      from that have "env_git_info (env w2) = None"
        by (simp add: w2 f1(1))
      then have "fetched (issued w2) w3 b (revision info)"
        using info by (rule f3(4))
      moreover from f1(3) obtain earlier where "issued w2 = issued w @ earlier"
        by (auto simp: w2)
      ultimately have "fetched (issued w) w3 b (revision info)"
        using fetched_earlier by simp
      moreover from f5(3) f6(3) f7(3) obtain new where "issued w' = issued w3 @ new"
        by (auto simp: e8 w4 set_env_def)
      moreover have "remote w' = remote w3"
        by (simp add: e8 f7(2) f6(2) f5(2) w4 set_env_def)
      ultimately show ?thesis
        by (rule fetched_extend)
    qed
    with stored b show ?thesis
      by (intro exI [of _ info]) simp
  qed
  from keep nothing_else overwrite show ?thesis by blast
qed

theorem deploy_git_revision_witness:
  "truthy (env_git_revision (env (tagged_world ''v1.2''))) \<and>
   env_git_revision (env (snd (deploy None (tagged_world ''v1.2'')))) = Some ''v1.2'' \<and>
   \<not> truthy (env_git_revision (env demo_world)) \<and>
   return_value demo_world ''deploy'' = None \<and>
   fst (deploy None demo_world) = Inr PyNone \<and>
   env_git_revision (env (snd (deploy None demo_world))) = Some ''4f2a9c1'' \<and>
   fetched (issued demo_world) (snd (deploy None demo_world)) ''master'' ''4f2a9c1'' \<and>
   \<not> truthy (env_git_revision (env (tagged_world []))) \<and>
   env_git_revision (env (snd (deploy None (tagged_world [])))) = Some ''4f2a9c1''"
proof -
  have tagged: "truthy (env_git_revision (env (tagged_world ''v1.2'')))"
    "env_git_revision (env (tagged_world ''v1.2'')) = Some ''v1.2''"
    by (simp_all add: tagged_world_value truthy_def)
  have blank: "\<not> truthy (env_git_revision (env (tagged_world [])))"
    by (simp add: tagged_world_value truthy_def)
  have demo: "\<not> truthy (env_git_revision (env demo_world))"
    "return_value demo_world ''deploy'' = None"
    "env_git_info (env demo_world) = None"
    "chosen_branch None demo_world = Some ''master''"
    by (simp_all add: demo_world_value truthy_def chosen_branch_def)
  have returns: "deploy None demo_world = (Inr PyNone, snd (deploy None demo_world))"
    using deploy_demo_world(1) by (cases "deploy None demo_world") simp
  from deploy_git_revision [of "tagged_world ''v1.2''" None] tagged
  have kept: "env_git_revision (env (snd (deploy None (tagged_world ''v1.2'')))) = Some ''v1.2''"
    by simp
  from deploy_git_revision [of demo_world None PyNone "snd (deploy None demo_world)"]
    demo returns deploy_demo_world(2)
  have "fetched (issued demo_world) (snd (deploy None demo_world)) ''master'' ''4f2a9c1''"
    by auto
  with tagged kept blank demo deploy_demo_world deploy_blank_world show ?thesis
    by simp
qed


lemma deploy_returned_cached:
  "deploy branch w = (Inr v, w') \<Longrightarrow> return_value w' ''deploy'' \<noteq> None"
  unfolding deploy_def runs_once_def
  by (auto simp: then_do_Inr split: option.splits)

text \<open>
  The condition of claim C9 on \<^verbatim>\<open>env.git_info\<close> holds whenever \<^verbatim>\<open>deploy\<close> really runs: in
  every world a \<^verbatim>\<open>fab\<close> process can reach, \<^verbatim>\<open>env.git_info\<close> is missing as long as no
  \<^verbatim>\<open>return_value\<close> of \<^verbatim>\<open>deploy\<close> is stored.
\<close>

theorem reachable_git_info_unset:
  "reachable w \<Longrightarrow> return_value w ''deploy'' = None \<Longrightarrow> env_git_info (env w) = None"
proof (induction rule: reachable.induct)
  case (start w)
  then show ?case by simp
next
  case (host w h)
  then show ?case by (simp add: set_env_def)
next
  case (prod w u v w')
  show ?case
  proof (cases "return_value w ''prod''")
    case None
    from prod_first_call [OF None, of u] prod.hyps(2)
    have "return_value w' ''deploy'' = return_value w ''deploy''"
      and "env_git_info (env w') = env_git_info (env w)"
      by auto
    with prod.IH prod.prems show ?thesis by simp
  next
    case (Some x)
    with prod.hyps(2) have "w' = w" by (simp add: prod_cached)
    with prod.IH prod.prems show ?thesis by simp
  qed
next
  case (r w revision' v w')
  from r_call [OF r.hyps(2)] r.IH r.prems show ?case
    by auto
next
  case (deploy w branch v w')
  from deploy_returned_cached [OF deploy.hyps(2)] deploy.prems show ?case
    by simp
qed

theorem reachable_git_info_unset_witness:
  "reachable (tagged_world ''v1.2'') \<and>
   return_value (tagged_world ''v1.2'') ''deploy'' = None \<and>
   env_git_info (env (tagged_world ''v1.2'')) = None"
proof -
  have "return_value (tagged_world ''v1.2'') ''deploy'' = None"
    by (simp add: tagged_world_value)
  with reachable_tagged_world reachable_git_info_unset [OF reachable_tagged_world this]
  show ?thesis by simp
qed

section \<open>\<^verbatim>\<open>_git_info\<close> is memoized\<close>

lemma git_info_call:
  "task_call git_info branch w = (Inr v, w') \<Longrightarrow>
     (v = PyBool False \<and> w' = w \<and> \<not> holds_role w ''transcript'') \<or>
     (v = PyNone \<and> holds_role w' ''transcript'' \<and> env_git_info (env w') \<noteq> None)"
  unfolding git_info_def strict_roles_def Let_def task.simps inner_decorator_cases
  by (auto simp: then_do_Inr attr_Inr run_Inr_iff set_env_def holds_role_def split: if_splits)


text \<open>
  Claim C10. With \<^verbatim>\<open>env.git_info\<close> set, a call of \<^verbatim>\<open>_git_info\<close> leaves the world as it
  is, so it issues no command, and returns \<^verbatim>\<open>None\<close> (or the guard's \<^verbatim>\<open>False\<close>). A call
  that returned is followed by a call that returns the same and changes nothing.
\<close>

theorem git_info_memoized:
  "(env_git_info (env w) \<noteq> None \<longrightarrow>
      snd (task_call git_info branch w) = w \<and>
      (fst (task_call git_info branch w) = Inr PyNone \<or>
       fst (task_call git_info branch w) = Inr (PyBool False))) \<and>
   (fst (task_call git_info branch w) = Inr v \<longrightarrow>
      task_call git_info branch2 (snd (task_call git_info branch w)) =
        (Inr v, snd (task_call git_info branch w)))"
proof -
  have memo: "snd (task_call git_info branch w) = w \<and>
      (fst (task_call git_info branch w) = Inr PyNone \<or>
       fst (task_call git_info branch w) = Inr (PyBool False))"
    if "env_git_info (env w) \<noteq> None"
    using that by (simp add: git_info_def strict_roles_def Let_def inner_decorator_cases)
  have again: "task_call git_info branch2 (snd (task_call git_info branch w)) =
        (Inr v, snd (task_call git_info branch w))"
    if "fst (task_call git_info branch w) = Inr v"
  proof -
    from that obtain w' where call: "task_call git_info branch w = (Inr v, w')"
      by (cases "task_call git_info branch w") simp
    from git_info_call [OF call]
    have "task_call git_info branch2 w' = (Inr v, w')"
      by (auto simp: git_info_def strict_roles_def Let_def inner_decorator_cases)
    with call show ?thesis by simp
  qed
  from memo again show ?thesis by blast
qed

theorem git_info_memoized_witness:
  "fst (task_call git_info ''master'' demo_world) = Inr PyNone \<and>
   env_git_info (env (snd (task_call git_info ''master'' demo_world))) \<noteq> None \<and>
   task_call git_info ''develop'' (snd (task_call git_info ''master'' demo_world)) =
     (Inr PyNone, snd (task_call git_info ''master'' demo_world)) \<and>
   length (issued (snd (task_call git_info ''develop''
      (snd (task_call git_info ''master'' demo_world))))) = 5"
proof -
  have set: "env_git_info (env (snd (task_call git_info ''master'' demo_world))) \<noteq> None"
    by (simp add: git_info_demo_world)
  from git_info_memoized [of "snd (task_call git_info ''master'' demo_world)" "''develop''"] set
  have same: "snd (task_call git_info ''develop'' (snd (task_call git_info ''master'' demo_world)))
      = snd (task_call git_info ''master'' demo_world)"
    by blast
  from git_info_memoized [of demo_world "''master''" PyNone "''develop''"] git_info_demo_world(1)
  have "task_call git_info ''develop'' (snd (task_call git_info ''master'' demo_world)) =
     (Inr PyNone, snd (task_call git_info ''master'' demo_world))"
    by blast
  with set same show ?thesis
    by (simp add: git_info_demo_world)
qed


end
